theory Spec2Isabelle
  imports Main
begin

section \<open>Batch management of OpenLDAP user entries (openldap.py)\<close>

text \<open>
  The script reads a list of user actions, applies each one to an LDAP directory through
  python-ldap and writes one result row per action. The embedding follows the source
  function by function: \<open>getUserType\<close>, \<open>buildDN\<close>, \<open>ldapConnect\<close>, \<open>findUser\<close>,
  \<open>containsPosixAccount\<close>, \<open>create\<close>, \<open>update\<close>, \<open>delete\<close> and the loop of \<open>main\<close>.

  What the script does not own is a parameter of the model:
  \<^item> the settings of openldap\_settings.py (all empty strings in the repository) are a
    record \<open>config\<close>;
  \<^item> the python-ldap connection is a function from a call and the state of the world to
    a reply and the next state of the world; \<open>None\<close> is a raised \<open>ldap.LDAPError\<close>;
  \<^item> the order in which Python 2 iterates over a dict, and the SHA-1/base64 digest of
    hashlib and base64, are functions of the record \<open>runtime\<close>.
  Console output and the log file never influence control flow and are left out, with one
  exception that is modelled: formatting a log line reads a local variable, which raises
  when the variable was never assigned.
\<close>

subsection \<open>Settings, exceptions, directory calls\<close>

record config =
  LDAPSERVER :: string
  USER :: string
  PASSWORD :: string
  baseDN :: string
  MAILDOMAIN :: string
  STUPATTERN :: string
  GSTPATTERN :: string
  STUDENTOU :: string
  GUESTOU :: string
  EMPOU :: string

text \<open>
  The exceptions that occur: \<open>ldap.LDAPError\<close>, raised by python-ldap;
  \<open>UnboundLocalError\<close>, raised by Python when a local variable is read before any
  assignment to it; and \<open>KeyError\<close>, raised when a dict is read at a key it does not
  hold. The last two are instances of \<open>Exception\<close> that are not an \<open>LDAPError\<close>.
\<close>

datatype exn = LDAPError | UnboundLocalError | KeyError

text \<open>
  One constructor per python-ldap operation the script performs, with the arguments the
  script passes. \<open>Bind\<close> stands for \<open>ldap.initialize\<close>, \<open>set_option\<close> and
  \<open>simple_bind_s\<close>, which \<open>ldapConnect\<close> runs inside one \<open>try\<close>.
\<close>

datatype call =
    Bind string string string
  | Search string string
  | Add string "(string \<times> string list) list"
  | Rename string string
  | Modify string "(string \<times> string) list"
  | Delete string
  | Unbind

type_synonym 'w ldap = "call \<Rightarrow> 'w \<Rightarrow> string list option \<times> 'w"

record 'w runtime =
  ldap :: "'w ldap"
  dict_order :: "string list \<Rightarrow> string list"
  sha1_b64 :: "string \<Rightarrow> string"

text \<open>
  The state threaded through the script: the world behind the connection, and the trace
  of the calls made so far, each with whether it returned (\<open>True\<close>) or raised.
\<close>

record 'w state =
  world :: 'w
  trace :: "(call \<times> bool) list"

definition request :: "'w ldap \<Rightarrow> call \<Rightarrow> 'w state \<Rightarrow> string list option \<times> 'w state" where
  "request l c s =
     (case l c (world s) of
        (r, w') \<Rightarrow> (r, \<lparr>world = w', trace = trace s @ [(c, r \<noteq> None)]\<rparr>))"

text \<open>The calls made between two states of one run.\<close>

definition calls_since :: "'w state \<Rightarrow> 'w state \<Rightarrow> (call \<times> bool) list" where
  "calls_since s s' = drop (length (trace s)) (trace s')"

subsection \<open>Python string operations\<close>

text \<open>\<open>p in u\<close> on strings: \<open>p\<close> occurs in \<open>u\<close> as a contiguous substring.\<close>

fun starts_with :: "string \<Rightarrow> string \<Rightarrow> bool" where
  "starts_with [] u = True"
| "starts_with (c # p) [] = False"
| "starts_with (c # p) (d # u) = (c = d \<and> starts_with p u)"

fun str_in :: "string \<Rightarrow> string \<Rightarrow> bool" where
  "str_in p [] = (p = [])"
| "str_in p (c # u) = (starts_with p (c # u) \<or> str_in p u)"

text \<open>
  \<open>u[0:j]\<close>: a negative stop counts from the end, and a stop outside the string is
  clamped to it, so the slice never raises.
\<close>

definition slice_to :: "string \<Rightarrow> int \<Rightarrow> string" where
  "slice_to u j =
     (let n = int (length u);
          stop = (if j < 0 then max 0 (n + j) else min j n)
      in take (nat stop) u)"

subsection \<open>getUserType and buildDN\<close>

definition getUserType :: "config \<Rightarrow> string \<Rightarrow> string" where
  "getUserType cfg username =
     (if str_in (STUPATTERN cfg) username then ''STU''
      else if GSTPATTERN cfg = slice_to username (- 4) then ''GST''
      else ''EMP'')"

definition buildDN :: "config \<Rightarrow> string \<Rightarrow> string" where
  "buildDN cfg username =
     (let userType = getUserType cfg username
      in if userType = ''STU'' then ''uid='' @ username @ STUDENTOU cfg
         else if userType = ''GST'' then ''uid='' @ username @ GUESTOU cfg
         else ''uid='' @ username @ EMPOU cfg)"

text \<open>The wording of the specification: a string with its last four characters stripped.\<close>

definition strip_last4 :: "string \<Rightarrow> string" where
  "strip_last4 u = rev (drop 4 (rev u))"

subsection \<open>ldapConnect, findUser, containsPosixAccount\<close>

text \<open>
  \<open>ldapConnect\<close> returns the connection, or \<open>False\<close> when binding raised
  \<open>LDAPError\<close>; the model returns whether there is a connection.
\<close>

definition ldapConnect :: "config \<Rightarrow> 'w ldap \<Rightarrow> 'w state \<Rightarrow> bool \<times> 'w state" where
  "ldapConnect cfg l s =
     (case request l (Bind (LDAPSERVER cfg) (USER cfg) (PASSWORD cfg)) s of
        (None, s1) \<Rightarrow> (False, s1)
      | (Some r, s1) \<Rightarrow> (True, s1))"

text \<open>
  In both searches the handler of \<open>LDAPError\<close> prints and logs and then falls through
  to \<open>len(ldap_result)\<close>. The only assignment to \<open>ldap_result\<close> is the statement that
  raised, so reading it raises \<open>UnboundLocalError\<close>.
\<close>

definition findUser :: "config \<Rightarrow> 'w ldap \<Rightarrow> string \<Rightarrow> 'w state \<Rightarrow> (exn + bool) \<times> 'w state" where
  "findUser cfg l username s =
     (let searchFilter = ''uid='' @ username
      in case request l (Search (baseDN cfg) searchFilter) s of
           (None, s1) \<Rightarrow> (Inl UnboundLocalError, s1)
         | (Some ldap_result, s1) \<Rightarrow>
             (if length ldap_result = 0 then (Inr False, s1)
              else if length ldap_result > 1 then (Inr False, s1)
              else (Inr True, s1)))"

definition containsPosixAccount ::
  "config \<Rightarrow> 'w ldap \<Rightarrow> string \<Rightarrow> 'w state \<Rightarrow> (exn + bool) \<times> 'w state" where
  "containsPosixAccount cfg l username s =
     (let searchFilter = ''(&(uid='' @ username @ '')(objectClass=posixAccount))''
      in case request l (Search (baseDN cfg) searchFilter) s of
           (None, s1) \<Rightarrow> (Inl UnboundLocalError, s1)
         | (Some ldap_result, s1) \<Rightarrow>
             (if length ldap_result = 0 then (Inr False, s1)
              else if length ldap_result > 1 then (Inr False, s1)
              else (Inr True, s1)))"

subsection \<open>The check for missing values\<close>

text \<open>
  \<open>params = locals()\<close> is a dict of the function's arguments, and the loop
  \<open>for _item in params\<close> visits its keys in the dict's own order, which Python 2 does
  not tie to the order of the arguments. The loop returns at the first key whose value
  is the empty string.
\<close>

definition first_missing ::
  "(string list \<Rightarrow> string list) \<Rightarrow> (string \<times> string) list \<Rightarrow> string option" where
  "first_missing order params =
     List.find (\<lambda>item. map_of params item = Some []) (order (map fst params))"

definition missing_value :: "string \<Rightarrow> string" where
  "missing_value item = ''ERROR: Missing an expected input value for '' @ item @ '' in input file''"

subsection \<open>create\<close>

datatype attrval = Str string | Strs "string list"

text \<open>
  \<open>modlist.addModlist\<close> of python-ldap turns the dict into a list of pairs, in the
  dict's order, leaving out an attribute whose value is empty.
\<close>

definition addModlist ::
  "(string list \<Rightarrow> string list) \<Rightarrow> (string \<times> attrval) list \<Rightarrow> (string \<times> string list) list" where
  "addModlist order entry =
     concat (map (\<lambda>attrtype.
        case map_of entry attrtype of
          None \<Rightarrow> []
        | Some (Str v) \<Rightarrow> (if v = [] then [] else [(attrtype, [v])])
        | Some (Strs vs) \<Rightarrow> (if vs = [] then [] else [(attrtype, vs)]))
      (order (map fst entry)))"

text \<open>\<open>locals()\<close> at the start of \<open>create\<close>: the arguments by name.\<close>

definition create_locals where
  "create_locals username givenName fullName sn employeeType dNumber ou businessCategory
     userPassword =
     [(''username'', username :: string), (''givenName'', givenName),
      (''fullName'', fullName), (''sn'', sn), (''employeeType'', employeeType),
      (''dNumber'', dNumber), (''ou'', ou),
      (''businessCategory'', businessCategory), (''userPassword'', userPassword)]"

text \<open>The dict \<open>attrs\<close> that \<open>create\<close> builds for the new entry, in the order of its assignments.\<close>

definition create_attrs where
  "create_attrs (rt :: 'w runtime) cfg username givenName fullName sn employeeType dNumber ou
     businessCategory userPassword =
     [(''objectclass'', Strs [''top'', ''person'', ''organizationalPerson'',
                               ''inetOrgPerson'', ''duPerson'', ''qmailUser'']),
      (''uid'', Str username),
      (''userPassword'', Str (''{SHA}'' @ sha1_b64 rt userPassword)),
      (''givenName'', Str givenName),
      (''cn'', Str fullName),
      (''sn'', Str sn),
      (''mail'', Str (username @ MAILDOMAIN cfg)),
      (''employeeType'', Str employeeType),
      (''employeeNumber'', Str dNumber),
      (''o'', Str ou),
      (''businessCategory'', Str businessCategory),
      (''pwdReset'', Str ''TRUE'')]"

definition create where
  "create (rt :: 'w runtime) cfg username givenName fullName sn employeeType dNumber ou businessCategory
     userPassword s =
     (let params = create_locals username givenName fullName sn employeeType dNumber ou
                     businessCategory userPassword
      in case first_missing (dict_order rt) params of
           Some item \<Rightarrow> (Inr (missing_value item), s)
         | None \<Rightarrow>
             (case ldapConnect cfg (ldap rt) s of
                (l, s1) \<Rightarrow>
                  if \<not> l then (Inr ''ERROR: unable to connect to LDAP server'', s1)
                  else
                    (case findUser cfg (ldap rt) username s1 of
                       (Inl e, s2) \<Rightarrow> (Inl e, s2)
                     | (Inr exists, s2) \<Rightarrow>
                         if exists then (Inr ''ERROR: username already taken!'', s2)
                         else
                           (let attrs = create_attrs rt cfg username givenName fullName sn
                                          employeeType dNumber ou businessCategory userPassword;
                                ldif = addModlist (dict_order rt) attrs;
                                dn = buildDN cfg username
                            in case request (ldap rt) (Add dn ldif) s2 of
                                 (None, s3) \<Rightarrow> (Inr ''ERROR: Could not create ldap user'', s3)
                               | (Some r, s3) \<Rightarrow>
                                   (case request (ldap rt) Unbind s3 of
                                      (None, s4) \<Rightarrow> (Inr ''ERROR: Could not create ldap user'', s4)
                                    | (Some r', s4) \<Rightarrow> (Inr ''SUCCESS: User added to ldap'', s4))))))"

subsection \<open>update\<close>

text \<open>
  How the block under \<open>if username != newusername\<close> is left: by a \<open>return\<close>, or by
  running on to the modification, with the local variable \<open>dn\<close> assigned or not.
\<close>

datatype rename_exit = Returned string | Continued "string option"

text \<open>
  The block under \<open>if username != newusername\<close>. The handler \<open>except Exception\<close> of the
  \<open>try\<close> assigns \<open>result\<close> and does not return, so after an error of the second search or of
  \<open>rename_s\<close> the function runs on. The search after the \<open>try\<close> is outside every handler.
\<close>

definition update_rename ::
  "config \<Rightarrow> 'w ldap \<Rightarrow> string \<Rightarrow> string \<Rightarrow> 'w state \<Rightarrow> (exn + rename_exit) \<times> 'w state" where
  "update_rename cfg l username newusername s =
     (let userType = getUserType cfg username
      in if userType \<noteq> getUserType cfg newusername
         then (Inr (Returned ''ERROR: won't rename users across different types''), s)
         else
           (case (case findUser cfg l newusername s of
                    (Inl e, s1) \<Rightarrow> (Continued None, s1)
                  | (Inr taken, s1) \<Rightarrow>
                      if taken then (Returned ''ERROR: newusername already taken!'', s1)
                      else
                        (let dn = buildDN cfg username
                         in case request l (Rename dn (''uid='' @ newusername)) s1 of
                              (r, s2) \<Rightarrow> (Continued (Some dn), s2))) of
              (Returned result, s3) \<Rightarrow> (Inr (Returned result), s3)
            | (Continued dn, s3) \<Rightarrow>
                (case findUser cfg l newusername s3 of
                   (Inl e, s4) \<Rightarrow> (Inl e, s4)
                 | (Inr found, s4) \<Rightarrow> (Inr (Continued dn), s4))))"

text \<open>
  The \<open>try\<close> that modifies the entry, and the lines after it. \<open>dn0\<close> is the local variable
  \<open>dn\<close> on entry. An \<open>LDAPError\<close> of \<open>modify_s\<close> or \<open>unbind_s\<close> returns the error result.
  The \<open>UnboundLocalError\<close> of \<open>containsPosixAccount\<close> is caught by \<open>except Exception\<close>,
  which does not return: the lines after the \<open>try\<close> format \<open>dn\<close> for the log and return
  the success result.
\<close>

text \<open>
  The two lists of \<open>MOD_REPLACE\<close> modifications of \<open>update\<close>: the one it builds first, and
  the one that replaces it when \<open>containsPosixAccount\<close> is true.
\<close>

definition standard_mod_attrs where
  "standard_mod_attrs cfg newusername givenName fullName sn employeeType dNumber ou
     businessCategory =
     [(''givenName'', givenName :: string),
      (''cn'', fullName),
      (''sn'', sn),
      (''uid'', newusername),
      (''mail'', newusername @ MAILDOMAIN cfg),
      (''employeeType'', employeeType),
      (''employeeNumber'', dNumber),
      (''o'', ou),
      (''businessCategory'', businessCategory)]"

definition posix_mod_attrs :: "string \<Rightarrow> string \<Rightarrow> string \<Rightarrow> (string \<times> string) list" where
  "posix_mod_attrs newusername uidNumber gidNumber =
     [(''uidNumber'', uidNumber),
      (''gidNumber'', gidNumber),
      (''homeDirectory'', ''/home/'' @ newusername)]"

definition update_modify where
  "update_modify cfg l username newusername uidNumber gidNumber givenName fullName sn
     employeeType dNumber ou businessCategory (dn0 :: string option) s =
     (case containsPosixAccount cfg l username s of
        (Inl e, s1) \<Rightarrow>
          (case dn0 of
             None \<Rightarrow> (Inl UnboundLocalError, s1)
           | Some dn \<Rightarrow> (Inr ''SUCCESS: User updated in ldap'', s1))
      | (Inr posix, s1) \<Rightarrow>
          (let mod_attrs =
                 (if posix then posix_mod_attrs newusername uidNumber gidNumber
                  else standard_mod_attrs cfg newusername givenName fullName sn employeeType
                         dNumber ou businessCategory);
               dn = buildDN cfg newusername
           in case request l (Modify dn mod_attrs) s1 of
                (None, s2) \<Rightarrow> (Inr ''ERROR: Could not update ldap user'', s2)
              | (Some r, s2) \<Rightarrow>
                  (case request l Unbind s2 of
                     (None, s3) \<Rightarrow> (Inr ''ERROR: Could not update ldap user'', s3)
                   | (Some r', s3) \<Rightarrow> (Inr ''SUCCESS: User updated in ldap'', s3))))"

text \<open>\<open>locals()\<close> at the start of \<open>update\<close>.\<close>

definition update_locals where
  "update_locals username newusername uidNumber gidNumber givenName fullName sn employeeType
     dNumber ou businessCategory =
     [(''username'', username :: string), (''newusername'', newusername),
      (''uidNumber'', uidNumber), (''gidNumber'', gidNumber),
      (''givenName'', givenName), (''fullName'', fullName), (''sn'', sn),
      (''employeeType'', employeeType), (''dNumber'', dNumber), (''ou'', ou),
      (''businessCategory'', businessCategory)]"

definition update where
  "update (rt :: 'w runtime) cfg username newusername uidNumber gidNumber givenName fullName sn employeeType
     dNumber ou businessCategory s =
     (let params = update_locals username newusername uidNumber gidNumber givenName fullName
                     sn employeeType dNumber ou businessCategory
      in case first_missing (dict_order rt) params of
           Some item \<Rightarrow> (Inr (missing_value item), s)
         | None \<Rightarrow>
             (case ldapConnect cfg (ldap rt) s of
                (l, s1) \<Rightarrow>
                  if \<not> l then (Inr ''ERROR: unable to connect to LDAP server'', s1)
                  else
                    (case findUser cfg (ldap rt) username s1 of
                       (Inl e, s2) \<Rightarrow> (Inl e, s2)
                     | (Inr exists, s2) \<Rightarrow>
                         if \<not> exists then (Inr ''ERROR: user could not be found!'', s2)
                         else
                           (case (if username \<noteq> newusername
                                  then update_rename cfg (ldap rt) username newusername s2
                                  else (Inr (Continued None), s2)) of
                              (Inl e, s3) \<Rightarrow> (Inl e, s3)
                            | (Inr (Returned result), s3) \<Rightarrow> (Inr result, s3)
                            | (Inr (Continued dn), s3) \<Rightarrow>
                                update_modify cfg (ldap rt) username newusername uidNumber
                                  gidNumber givenName fullName sn employeeType dNumber ou
                                  businessCategory dn s3))))"

subsection \<open>delete\<close>

definition delete :: "'w runtime \<Rightarrow> config \<Rightarrow> string \<Rightarrow> 'w state \<Rightarrow> (exn + string) \<times> 'w state" where
  "delete rt cfg username s =
     (if username = []
      then (Inr ''ERROR: Missing an expected input value for username in input file'', s)
      else
        (case ldapConnect cfg (ldap rt) s of
           (l, s1) \<Rightarrow>
             if \<not> l then (Inr ''ERROR: unable to connect to LDAP server'', s1)
             else
               (case findUser cfg (ldap rt) username s1 of
                  (Inl e, s2) \<Rightarrow> (Inl e, s2)
                | (Inr exists, s2) \<Rightarrow>
                    if \<not> exists then (Inr ''ERROR: user could not be found!'', s2)
                    else
                      (let dn = buildDN cfg username
                       in case request (ldap rt) (Delete dn) s2 of
                            (None, s3) \<Rightarrow> (Inr ''ERROR: Could not delete ldap user'', s3)
                          | (Some r, s3) \<Rightarrow>
                              (case request (ldap rt) Unbind s3 of
                                 (None, s4) \<Rightarrow> (Inr ''ERROR: Could not delete ldap user'', s4)
                               | (Some r', s4) \<Rightarrow> (Inr ''SUCCESS: User deleted from ldap'', s4))))))"

subsection \<open>The loop of main\<close>

text \<open>
  A row of the input is the dict of one user action. Reading it at a key it does not hold
  raises \<open>KeyError\<close>. The values are strings (the script applies \<open>str\<close> to each value
  it passes on).
\<close>

type_synonym row = "string \<Rightarrow> string option"

definition getitem :: "row \<Rightarrow> string \<Rightarrow> exn + string" where
  "getitem row key = (case row key of None \<Rightarrow> Inl KeyError | Some v \<Rightarrow> Inr v)"

text \<open>The arguments of a call are read from left to right; the first missing key raises.\<close>

fun getitems :: "row \<Rightarrow> string list \<Rightarrow> exn + string list" where
  "getitems row [] = Inr []"
| "getitems row (key # keys) =
     (case getitem row key of
        Inl e \<Rightarrow> Inl e
      | Inr v \<Rightarrow> (case getitems row keys of Inl e \<Rightarrow> Inl e | Inr vs \<Rightarrow> Inr (v # vs)))"

text \<open>The body of the loop up to the result: the \<open>if\<close> on \<open>row["action"]\<close>.\<close>

definition run_action :: "'w runtime \<Rightarrow> config \<Rightarrow> row \<Rightarrow> 'w state \<Rightarrow> (exn + string) \<times> 'w state" where
  "run_action rt cfg row s =
     (case getitem row ''action'' of
        Inl e \<Rightarrow> (Inl e, s)
      | Inr action \<Rightarrow>
          if action = ''create''
          then (case getitems row [''username'', ''givenName'', ''fullName'', ''sn'',
                       ''employeeType'', ''DNumber'', ''primO'', ''businessCategory'',
                       ''userPassword''] of
                  Inr [username, givenName, fullName, sn, employeeType, dNumber, ou,
                       businessCategory, userPassword] \<Rightarrow>
                    create rt cfg username givenName fullName sn employeeType dNumber ou
                      businessCategory userPassword s
                | Inr vs \<Rightarrow> (Inl KeyError, s)
                | Inl e \<Rightarrow> (Inl e, s))
          else if action = ''update''
          then (case getitems row [''username'', ''newusername'', ''uidNumber'', ''gidNumber'',
                       ''givenName'', ''fullName'', ''sn'', ''employeeType'', ''DNumber'',
                       ''primO'', ''businessCategory''] of
                  Inr [username, newusername, uidNumber, gidNumber, givenName, fullName, sn,
                       employeeType, dNumber, ou, businessCategory] \<Rightarrow>
                    update rt cfg username newusername uidNumber gidNumber givenName fullName
                      sn employeeType dNumber ou businessCategory s
                | Inr vs \<Rightarrow> (Inl KeyError, s)
                | Inl e \<Rightarrow> (Inl e, s))
          else if action = ''delete''
          then (case getitem row ''username'' of
                  Inl e \<Rightarrow> (Inl e, s)
                | Inr username \<Rightarrow> delete rt cfg username s)
          else (Inr ''ERROR: Unrecognized action'', s))"

text \<open>
  The \<open>for\<close> loop stands inside the \<open>try\<close> of \<open>main\<close>: an exception that leaves a
  processor, or the \<open>KeyError\<close> of a row, is caught by \<open>except Exception\<close> outside the
  loop, which prints and logs; \<open>finally\<close> closes the files. The rows written until then
  stay in the report. \<open>writerow\<close> reads the action and the username of the row again.
\<close>

fun write_rows ::
  "'w runtime \<Rightarrow> config \<Rightarrow> row list \<Rightarrow> string list list \<Rightarrow> 'w state \<Rightarrow> string list list \<times> 'w state" where
  "write_rows rt cfg [] out s = (out, s)"
| "write_rows rt cfg (row # rows) out s =
     (case run_action rt cfg row s of
        (Inl e, s1) \<Rightarrow> (out, s1)
      | (Inr result, s1) \<Rightarrow>
          (case getitem row ''action'' of
             Inl e \<Rightarrow> (out, s1)
           | Inr action \<Rightarrow>
               (case getitem row ''username'' of
                  Inl e \<Rightarrow> (out, s1)
                | Inr username \<Rightarrow>
                    write_rows rt cfg rows (out @ [[action, username, result]]) s1)))"

definition main :: "'w runtime \<Rightarrow> config \<Rightarrow> row list \<Rightarrow> 'w state \<Rightarrow> string list list \<times> 'w state" where
  "main rt cfg useractions s =
     write_rows rt cfg useractions [[''action'', ''username'', ''result'']] s"

subsection \<open>Two connections to run the script against\<close>

text \<open>
  A scripted connection answers the calls it receives with the replies of a list, one per
  call, whatever the call is; after the list it answers every call with an empty result.
  Every sequence of replies a server and a network can give to one run is such a list.
\<close>

definition scripted :: "(string list option) list ldap" where
  "scripted c w = (case w of [] \<Rightarrow> (Some [], []) | r # rs \<Rightarrow> (r, rs))"

text \<open>
  A directory server. An entry has its DN, the value of its \<open>uid\<close> attribute, its object
  classes and its other attributes. The server understands the two filters the script
  sends, with the value taken literally; every entry is under the base DN.
  \<^item> a search returns the DNs of the entries that match;
  \<^item> an add fails when the DN is taken;
  \<^item> a rename fails when there is no entry at the DN or the new DN is taken; it moves the
    entry to the new RDN under the same parent and replaces the old \<open>uid\<close> value by the
    new one (python-ldap's \<open>rename_s\<close> deletes the old RDN value by default);
  \<^item> a modify or a delete fails when there is no entry at the DN.
  \<open>outage\<close> says for each coming call whether the network fails it; a failed call
  raises \<open>LDAPError\<close> and does not reach the directory.
\<close>

record entry =
  dn :: string
  uid :: string
  objectClass :: "string list"
  attributes :: "(string \<times> string) list"

record directory =
  entries :: "entry list"
  outage :: "bool list"

definition ends_with :: "string \<Rightarrow> string \<Rightarrow> bool" where
  "ends_with p u = starts_with (rev p) (rev u)"

definition parse_filter :: "string \<Rightarrow> (string \<times> bool) option" where
  "parse_filter f =
     (let pre = ''(&(uid=''; suf = '')(objectClass=posixAccount))''
      in if starts_with pre f \<and> ends_with suf f \<and> length pre + length suf \<le> length f
         then Some (take (length f - length pre - length suf) (drop (length pre) f), True)
         else if starts_with ''uid='' f then Some (drop 4 f, False)
         else None)"

definition matches :: "string \<Rightarrow> bool \<Rightarrow> entry \<Rightarrow> bool" where
  "matches u posix e =
     (uid e = u \<and> (if posix then ''posixAccount'' \<in> set (objectClass e) else True))"

definition replace_attr :: "entry \<Rightarrow> string \<times> string \<Rightarrow> entry" where
  "replace_attr e m =
     (if fst m = ''uid'' then e\<lparr>uid := snd m\<rparr>
      else e\<lparr>attributes := m # filter (\<lambda>kv. fst kv \<noteq> fst m) (attributes e)\<rparr>)"

definition new_entry :: "string \<Rightarrow> (string \<times> string list) list \<Rightarrow> entry" where
  "new_entry d ldif =
     \<lparr>dn = d,
      uid = (case map_of ldif ''uid'' of Some (v # vs) \<Rightarrow> v | _ \<Rightarrow> []),
      objectClass = (case map_of ldif ''objectclass'' of Some vs \<Rightarrow> vs | None \<Rightarrow> []),
      attributes = concat (map (\<lambda>(a, vs). if a = ''uid'' \<or> a = ''objectclass'' then []
                                            else map (\<lambda>v. (a, v)) vs) ldif)\<rparr>"

fun serve :: "call \<Rightarrow> entry list \<Rightarrow> (string list \<times> entry list) option" where
  "serve (Bind server user secret) es = Some ([], es)"
| "serve (Search base flt) es =
     (case parse_filter flt of
        None \<Rightarrow> None
      | Some (u, posix) \<Rightarrow> Some (map dn (filter (matches u posix) es), es))"
| "serve (Add d ldif) es =
     (if d \<in> set (map dn es) then None else Some ([], es @ [new_entry d ldif]))"
| "serve (Rename d newrdn) es =
     (let d' = newrdn @ dropWhile (\<lambda>c. c \<noteq> CHR '','') d
      in if d \<in> set (map dn es) \<and> d' \<notin> set (map dn es) \<and> starts_with ''uid='' newrdn
         then Some ([], map (\<lambda>e. if dn e = d then e\<lparr>dn := d', uid := drop 4 newrdn\<rparr> else e) es)
         else None)"
| "serve (Modify d mods) es =
     (if d \<in> set (map dn es)
      then Some ([], map (\<lambda>e. if dn e = d then foldl replace_attr e mods else e) es)
      else None)"
| "serve (Delete d) es =
     (if d \<in> set (map dn es) then Some ([], filter (\<lambda>e. dn e \<noteq> d) es) else None)"
| "serve Unbind es = Some ([], es)"

definition slapd :: "directory ldap" where
  "slapd c d =
     (case outage d of
        [] \<Rightarrow>
          (case serve c (entries d) of
             None \<Rightarrow> (None, d)
           | Some (r, es) \<Rightarrow> (Some r, d\<lparr>entries := es\<rparr>))
      | down # rest \<Rightarrow>
          if down then (None, d\<lparr>outage := rest\<rparr>)
          else
            (case serve c (entries d) of
               None \<Rightarrow> (None, d\<lparr>outage := rest\<rparr>)
             | Some (r, es) \<Rightarrow> (Some r, d\<lparr>entries := es, outage := rest\<rparr>)))"

subsection \<open>Values for the examples\<close>

text \<open>The settings that the comments of openldap\_settings.py give as examples.\<close>

definition campus :: config where
  "campus =
     \<lparr>LDAPSERVER = ''ldaps://server.domain.edu:636/'',
      USER = ''cn=admin,dc=university,dc=edu'',
      PASSWORD = ''nice try'',
      baseDN = ''dc=university,dc=edu'',
      MAILDOMAIN = ''@university.edu'',
      STUPATTERN = ''_'',
      GSTPATTERN = ''gst'',
      STUDENTOU = '',ou=people,dc=university,dc=edu'',
      GUESTOU = '',ou=people,dc=university,dc=edu'',
      EMPOU = '',ou=people,dc=university,dc=edu''\<rparr>"

definition on_script :: "(string list option) list runtime" where
  "on_script = \<lparr>ldap = scripted, dict_order = (\<lambda>ks. ks), sha1_b64 = (\<lambda>p. ''digest'')\<rparr>"

definition on_slapd :: "directory runtime" where
  "on_slapd = \<lparr>ldap = slapd, dict_order = (\<lambda>ks. ks), sha1_b64 = (\<lambda>p. ''digest'')\<rparr>"

definition start :: "'w \<Rightarrow> 'w state" where
  "start w = \<lparr>world = w, trace = []\<rparr>"

text \<open>A directory with one user, who has a POSIX account.\<close>

definition bobdir :: directory where
  "bobdir =
     \<lparr>entries = [\<lparr>dn = ''uid=bob,ou=people,dc=university,dc=edu'', uid = ''bob'',
                  objectClass = [''top'', ''person'', ''posixAccount''],
                  attributes = [(''cn'', ''Bob'')]\<rparr>],
      outage = []\<rparr>"

text \<open>A row that holds every key the script reads.\<close>

definition has_all_keys :: "row \<Rightarrow> bool" where
  "has_all_keys row =
     list_all (\<lambda>key. row key \<noteq> None)
       [''action'', ''username'', ''newusername'', ''uidNumber'', ''gidNumber'', ''givenName'',
        ''fullName'', ''sn'', ''employeeType'', ''DNumber'', ''primO'', ''businessCategory'',
        ''userPassword'']"

text \<open>A connection on which no search ever raises.\<close>

definition searches_return :: "'w ldap \<Rightarrow> bool" where
  "searches_return l = (\<forall>base flt w. fst (l (Search base flt) w) \<noteq> None)"

section \<open>Properties\<close>

lemma starts_with_iff: "starts_with p u \<longleftrightarrow> (\<exists>b. u = p @ b)"
  by (induction p u rule: starts_with.induct) auto

lemma str_in_iff: "str_in p u \<longleftrightarrow> (\<exists>a b. u = a @ p @ b)"
proof (induction u)
  case Nil
  then show ?case by auto
next
  case (Cons c u)
  show ?case
  proof
    assume "str_in p (c # u)"
    then consider "starts_with p (c # u)" | "str_in p u" by auto
    then show "\<exists>a b. c # u = a @ p @ b"
    proof cases
      case 1
      then obtain b where "c # u = p @ b" by (auto simp: starts_with_iff)
      then have "c # u = [] @ p @ b" by simp
      then show ?thesis by blast
    next
      case 2
      with Cons obtain a b where "u = a @ p @ b" by blast
      then have "c # u = (c # a) @ p @ b" by simp
      then show ?thesis by blast
    qed
  next
    assume "\<exists>a b. c # u = a @ p @ b"
    then obtain a b where ab: "c # u = a @ p @ b" by blast
    show "str_in p (c # u)"
    proof (cases a)
      case Nil
      with ab have "c # u = p @ b" by simp
      then have "starts_with p (c # u)" unfolding starts_with_iff by blast
      then show ?thesis by simp
    next
      case (Cons x a')
      with ab have "u = a' @ p @ b" by simp
      with Cons.IH have "str_in p u" by blast
      then show ?thesis by simp
    qed
  qed
qed

lemma slice_to_neg4: "slice_to u (- 4) = strip_last4 u"
  by (simp add: slice_to_def strip_last4_def Let_def rev_drop max_def nat_diff_distrib')

subsection \<open>getUserType\<close>

text \<open>
  C6. For every username, \<open>getUserType\<close> answers \<open>STU\<close> when the student pattern occurs
  somewhere in the username as a substring; otherwise \<open>GST\<close> when the guest pattern is
  equal to the username with its last four characters stripped; otherwise \<open>EMP\<close>. The
  student test comes first, and the function has a value, one of the three, for every
  username (for a username shorter than four characters the stripped string is empty).
\<close>

theorem getUserType_classification:
  "getUserType cfg username =
     (if (\<exists>a b. username = a @ STUPATTERN cfg @ b) then ''STU''
      else if GSTPATTERN cfg = strip_last4 username then ''GST''
      else ''EMP'')
   \<and> getUserType cfg username \<in> {''STU'', ''GST'', ''EMP''}"
  by (simp add: getUserType_def str_in_iff slice_to_neg4)

theorem getUserType_classification_witness:
  "getUserType campus ''alice_stu'' = ''STU''
   \<and> getUserType campus ''gst1234'' = ''GST''
   \<and> getUserType campus ''gst_1234'' = ''STU''
   \<and> getUserType campus ''jdoe'' = ''EMP''"
proof -
  have stu: "\<exists>a b. ''alice_stu'' = a @ STUPATTERN campus @ b"
    "\<exists>a b. ''gst_1234'' = a @ STUPATTERN campus @ b"
    unfolding str_in_iff [symmetric] by (simp_all add: campus_def)
  have not_stu: "\<not> (\<exists>a b. ''gst1234'' = a @ STUPATTERN campus @ b)"
    "\<not> (\<exists>a b. ''jdoe'' = a @ STUPATTERN campus @ b)"
    unfolding str_in_iff [symmetric] by (simp_all add: campus_def)
  have gst: "GSTPATTERN campus = strip_last4 ''gst1234''"
    "GSTPATTERN campus \<noteq> strip_last4 ''jdoe''"
    by (simp_all add: campus_def strip_last4_def)
  show ?thesis
    using getUserType_classification [of campus "''alice_stu''"]
      getUserType_classification [of campus "''gst1234''"]
      getUserType_classification [of campus "''gst_1234''"]
      getUserType_classification [of campus "''jdoe''"] stu not_stu gst
    by simp
qed

subsection \<open>The searches\<close>

lemma request_trace:
  "request l c s = (r, s') \<Longrightarrow> trace s' = trace s @ [(c, r \<noteq> None)]"
  by (auto simp: request_def split: prod.splits)

lemma request_fst: "fst (request l c s) = fst (l c (world s))"
  by (simp add: request_def split: prod.splits)

text \<open>
  C3. The claim is that a search that raises a transport error makes the existence check
  log the error and return false. The code does not: whenever the search of \<open>findUser\<close>
  or of \<open>containsPosixAccount\<close> raises \<open>LDAPError\<close>, the check raises
  \<open>UnboundLocalError\<close> to its caller.
\<close>

theorem search_error_leaves_the_check:
  assumes "fst (l (Search (baseDN cfg) (''uid='' @ username)) (world s)) = None"
    and "fst (l (Search (baseDN cfg)
            (''(&(uid='' @ username @ '')(objectClass=posixAccount))'')) (world s)) = None"
  shows "fst (findUser cfg l username s) = Inl UnboundLocalError
         \<and> fst (containsPosixAccount cfg l username s) = Inl UnboundLocalError"
proof
  from assms(1) have "fst (request l (Search (baseDN cfg) (''uid='' @ username)) s) = None"
    by (simp add: request_fst)
  then show "fst (findUser cfg l username s) = Inl UnboundLocalError"
    by (cases "request l (Search (baseDN cfg) (''uid='' @ username)) s")
       (simp add: findUser_def Let_def)
next
  from assms(2)
  have "fst (request l (Search (baseDN cfg)
          (''(&(uid='' @ username @ '')(objectClass=posixAccount))'')) s) = None"
    by (simp add: request_fst)
  then show "fst (containsPosixAccount cfg l username s) = Inl UnboundLocalError"
    by (cases "request l (Search (baseDN cfg)
                 (''(&(uid='' @ username @ '')(objectClass=posixAccount))'')) s")
       (simp add: containsPosixAccount_def Let_def)
qed

theorem search_error_leaves_the_check_witness:
  "fst (findUser campus scripted ''bob'' (start [None])) = Inl UnboundLocalError
   \<and> fst (containsPosixAccount campus scripted ''bob'' (start [None])) = Inl UnboundLocalError"
  using search_error_leaves_the_check [of scripted campus "''bob''" "start [None]"]
  by (simp add: scripted_def start_def)

subsection \<open>Traces of the connection steps\<close>

lemma ldapConnect_trace:
  "ldapConnect cfg l s = (ok, s1) \<Longrightarrow>
   trace s1 = trace s @ [(Bind (LDAPSERVER cfg) (USER cfg) (PASSWORD cfg), ok)]"
  by (auto simp: ldapConnect_def split: prod.splits option.splits dest: request_trace)

lemma findUser_trace:
  "findUser cfg l username s = (r, s1) \<Longrightarrow>
   trace s1 = trace s @ [(Search (baseDN cfg) (''uid='' @ username), r \<noteq> Inl UnboundLocalError)]"
  by (auto simp: findUser_def Let_def split: prod.splits option.splits if_splits
      dest: request_trace)

subsection \<open>Records with every value present\<close>

lemma first_missing_None:
  "[] \<notin> snd ` set params \<Longrightarrow> first_missing order params = None"
  by (auto simp: first_missing_def find_None_iff dest!: map_of_SomeD intro: rev_image_eqI)

lemma create_locals_complete:
  "[] \<notin> set [username, givenName, fullName, sn, employeeType, dNumber, ou, businessCategory,
              userPassword]
   \<Longrightarrow> first_missing order (create_locals username givenName fullName sn employeeType dNumber
         ou businessCategory userPassword) = None"
  by (rule first_missing_None) (auto simp: create_locals_def)

lemma update_locals_complete:
  "[] \<notin> set [username, newusername, uidNumber, gidNumber, givenName, fullName, sn,
              employeeType, dNumber, ou, businessCategory]
   \<Longrightarrow> first_missing order (update_locals username newusername uidNumber gidNumber givenName
         fullName sn employeeType dNumber ou businessCategory) = None"
  by (rule first_missing_None) (auto simp: update_locals_def)

subsection \<open>Renaming across user types\<close>

lemma update_cross_type_calls:
  assumes "username \<noteq> newusername"
    and "getUserType cfg username \<noteq> getUserType cfg newusername"
    and "update rt cfg username newusername uidNumber gidNumber givenName fullName sn
           employeeType dNumber ou businessCategory s = (r, s')"
  shows "calls_since s s' = []
    \<or> (\<exists>ok. calls_since s s' = [(Bind (LDAPSERVER cfg) (USER cfg) (PASSWORD cfg), ok)])
    \<or> (\<exists>ok. calls_since s s' = [(Bind (LDAPSERVER cfg) (USER cfg) (PASSWORD cfg), True),
                (Search (baseDN cfg) (''uid='' @ username), ok)])"
  using assms
  by (auto simp: update_def update_rename_def Let_def calls_since_def
      split: option.splits prod.splits sum.splits if_splits
      dest!: ldapConnect_trace findUser_trace)

text \<open>
  C9, as amended. For an \<open>update\<close> whose new username differs from the username and is of
  another user type: when all values are present, the connection succeeds and the
  existence check returns true for the username, the result is
  \<open>ERROR: won't rename users across different types\<close>; and in every case, whatever the
  result, the update performs no rename and no modify.
\<close>

theorem cross_type_rename_refused:
  assumes "username \<noteq> newusername"
    and "getUserType cfg username \<noteq> getUserType cfg newusername"
  shows "([] \<notin> set [username, newusername, uidNumber, gidNumber, givenName, fullName, sn,
                      employeeType, dNumber, ou, businessCategory]
          \<and> ldapConnect cfg (ldap rt) s = (True, s1)
          \<and> findUser cfg (ldap rt) username s1 = (Inr True, s2)
          \<longrightarrow> update rt cfg username newusername uidNumber gidNumber givenName fullName sn
                employeeType dNumber ou businessCategory s
              = (Inr ''ERROR: won't rename users across different types'', s2))
       \<and> (\<forall>d x ok. (Rename d x, ok) \<notin> set (calls_since s (snd (update rt cfg username
              newusername uidNumber gidNumber givenName fullName sn employeeType dNumber ou
              businessCategory s))))
       \<and> (\<forall>d m ok. (Modify d m, ok) \<notin> set (calls_since s (snd (update rt cfg username
              newusername uidNumber gidNumber givenName fullName sn employeeType dNumber ou
              businessCategory s))))"
proof (intro conjI impI)
  assume pre: "[] \<notin> set [username, newusername, uidNumber, gidNumber, givenName, fullName, sn,
                      employeeType, dNumber, ou, businessCategory]
          \<and> ldapConnect cfg (ldap rt) s = (True, s1)
          \<and> findUser cfg (ldap rt) username s1 = (Inr True, s2)"
  then have "first_missing (dict_order rt) (update_locals username newusername
      uidNumber gidNumber givenName fullName sn employeeType dNumber ou businessCategory) = None"
    by (intro update_locals_complete) blast
  with pre assms show "update rt cfg username newusername uidNumber gidNumber givenName fullName sn
                employeeType dNumber ou businessCategory s
              = (Inr ''ERROR: won't rename users across different types'', s2)"
    by (simp add: update_def update_rename_def Let_def)
next
  obtain r s' where run: "update rt cfg username newusername uidNumber gidNumber givenName
      fullName sn employeeType dNumber ou businessCategory s = (r, s')"
    by (cases "update rt cfg username newusername uidNumber gidNumber givenName
      fullName sn employeeType dNumber ou businessCategory s")
  from update_cross_type_calls [OF assms run]
  show "\<forall>d x ok. (Rename d x, ok) \<notin> set (calls_since s (snd (update rt cfg username
              newusername uidNumber gidNumber givenName fullName sn employeeType dNumber ou
              businessCategory s)))"
    unfolding run by auto
  from update_cross_type_calls [OF assms run]
  show "\<forall>d m ok. (Modify d m, ok) \<notin> set (calls_since s (snd (update rt cfg username
              newusername uidNumber gidNumber givenName fullName sn employeeType dNumber ou
              businessCategory s)))"
    unfolding run by auto
qed

theorem cross_type_rename_refused_witness:
  "''bob'' \<noteq> ''bob_x''
   \<and> getUserType campus ''bob'' \<noteq> getUserType campus ''bob_x''
   \<and> update on_script campus ''bob'' ''bob_x'' ''15549'' ''15549'' ''John''
        ''John The Testuser'' ''Testuser'' ''ADM'' ''D01234567'' ''Biology'' ''staff''
        (start [Some [], Some [''uid=bob,ou=people,dc=university,dc=edu'']])
     = (Inr ''ERROR: won't rename users across different types'',
        \<lparr>world = [],
         trace = [(Bind (LDAPSERVER campus) (USER campus) (PASSWORD campus), True),
                  (Search (baseDN campus) ''uid=bob'', True)]\<rparr>)"
proof -
  have types: "getUserType campus ''bob'' \<noteq> getUserType campus ''bob_x''"
    by (simp add: getUserType_def campus_def slice_to_def)
  have neq: "''bob'' \<noteq> ''bob_x''" by simp
  show ?thesis
    using types cross_type_rename_refused [OF neq types, of "''15549''" "''15549''" "''John''"
        "''John The Testuser''" "''Testuser''" "''ADM''" "''D01234567''" "''Biology''" "''staff''"
        on_script "start [Some [], Some [''uid=bob,ou=people,dc=university,dc=edu'']]"
        "\<lparr>world = [Some [''uid=bob,ou=people,dc=university,dc=edu'']],
          trace = [(Bind (LDAPSERVER campus) (USER campus) (PASSWORD campus), True)]\<rparr>"
        "\<lparr>world = [],
          trace = [(Bind (LDAPSERVER campus) (USER campus) (PASSWORD campus), True),
                   (Search (baseDN campus) ''uid=bob'', True)]\<rparr>"]
    by (simp add: ldapConnect_def findUser_def request_def scripted_def on_script_def start_def)
qed

text \<open>
  C9 as stated fails: the checks for missing values, for the connection and for the
  existence of the user come before the comparison of the types. Here the user does not
  exist, and the result is the one of a user that was not found.
\<close>

theorem cross_type_rename_counterexample:
  "''bob'' \<noteq> ''bob_x''
   \<and> getUserType campus ''bob'' \<noteq> getUserType campus ''bob_x''
   \<and> fst (update on_script campus ''bob'' ''bob_x'' ''15549'' ''15549'' ''John''
        ''John The Testuser'' ''Testuser'' ''ADM'' ''D01234567'' ''Biology'' ''staff''
        (start [Some [], Some []]))
     = Inr ''ERROR: user could not be found!''"
  by (simp add: update_def update_locals_def first_missing_def ldapConnect_def findUser_def
      request_def scripted_def on_script_def start_def getUserType_def campus_def slice_to_def)

subsection \<open>Missing values\<close>

lemma first_missing_Some:
  assumes dist: "distinct (map fst params)"
    and keys: "set (order (map fst params)) = set (map fst params)"
    and empty: "[] \<in> snd ` set params"
  shows "\<exists>item before after.
           first_missing order params = Some item
           \<and> order (map fst params) = before @ item # after
           \<and> (item, []) \<in> set params
           \<and> (\<forall>k \<in> set before. (k, []) \<notin> set params)"
proof -
  let ?P = "\<lambda>item. map_of params item = Some []"
  let ?xs = "order (map fst params)"
  have P_iff: "?P k \<longleftrightarrow> (k, []) \<in> set params" for k
    using dist by (auto dest: map_of_SomeD)
  from empty obtain k0 where k0: "(k0, []) \<in> set params" by force
  then have "k0 \<in> set ?xs" using keys by force
  with k0 have "\<exists>x \<in> set ?xs. ?P x" using P_iff by blast
  then have "List.find ?P ?xs \<noteq> None" by (auto simp: find_None_iff)
  then obtain item where item: "List.find ?P ?xs = Some item" by auto
  then obtain i where i: "i < length ?xs" "?P (?xs ! i)" "item = ?xs ! i"
      "\<forall>j<i. \<not> ?P (?xs ! j)"
    unfolding find_Some_iff by blast
  have split: "?xs = take i ?xs @ item # drop (Suc i) ?xs"
    using i(1,3) by (simp add: id_take_nth_drop)
  have before: "\<forall>k \<in> set (take i ?xs). (k, []) \<notin> set params"
  proof
    fix k assume "k \<in> set (take i ?xs)"
    then obtain j where "j < i" "k = ?xs ! j"
      using i(1) by (auto simp: in_set_conv_nth)
    with i(4) show "(k, []) \<notin> set params" using P_iff by blast
  qed
  from item i(2,3) split before show ?thesis
    unfolding first_missing_def using P_iff by blast
qed

text \<open>
  C5, as amended. On a Python whose dict iteration yields exactly the keys of the dict:
  when a value of \<open>create\<close> or of \<open>update\<close> is the empty string, the result is
  \<open>ERROR: Missing an expected input value for <item> in input file\<close>, where \<open>item\<close> is
  the name of an argument whose value is empty, the first such in the order in which the
  dict of the arguments is iterated; \<open>delete\<close> with an empty username returns this text
  for \<open>username\<close>. The state is returned as it was: no call is made to the directory.
\<close>

theorem missing_value_reported:
  assumes "\<And>ks. set (dict_order rt ks) = set ks"
  shows "([] \<in> set [username, givenName, fullName, sn, employeeType, dNumber, ou,
                    businessCategory, userPassword] \<longrightarrow>
          (\<exists>item before after.
             create rt cfg username givenName fullName sn employeeType dNumber ou
               businessCategory userPassword s
               = (Inr (''ERROR: Missing an expected input value for '' @ item @ '' in input file''), s)
             \<and> dict_order rt [''username'', ''givenName'', ''fullName'', ''sn'', ''employeeType'',
                  ''dNumber'', ''ou'', ''businessCategory'', ''userPassword'']
                 = before @ item # after
             \<and> (item, []) \<in> set (create_locals username givenName fullName sn employeeType
                  dNumber ou businessCategory userPassword)
             \<and> (\<forall>k \<in> set before. (k, []) \<notin> set (create_locals username givenName fullName sn
                  employeeType dNumber ou businessCategory userPassword))))
       \<and> ([] \<in> set [username, newusername, uidNumber, gidNumber, givenName, fullName, sn,
                    employeeType, dNumber, ou, businessCategory] \<longrightarrow>
          (\<exists>item before after.
             update rt cfg username newusername uidNumber gidNumber givenName fullName sn
               employeeType dNumber ou businessCategory s
               = (Inr (''ERROR: Missing an expected input value for '' @ item @ '' in input file''), s)
             \<and> dict_order rt [''username'', ''newusername'', ''uidNumber'', ''gidNumber'',
                  ''givenName'', ''fullName'', ''sn'', ''employeeType'', ''dNumber'', ''ou'',
                  ''businessCategory'']
                 = before @ item # after
             \<and> (item, []) \<in> set (update_locals username newusername uidNumber gidNumber
                  givenName fullName sn employeeType dNumber ou businessCategory)
             \<and> (\<forall>k \<in> set before. (k, []) \<notin> set (update_locals username newusername uidNumber
                  gidNumber givenName fullName sn employeeType dNumber ou businessCategory))))
       \<and> delete rt cfg [] s
           = (Inr ''ERROR: Missing an expected input value for username in input file'', s)"
proof (intro conjI impI)
  let ?params = "create_locals username givenName fullName sn employeeType dNumber ou
                   businessCategory userPassword"
  assume "[] \<in> set [username, givenName, fullName, sn, employeeType, dNumber, ou,
                    businessCategory, userPassword]"
  then have empty: "[] \<in> snd ` set ?params" by (simp add: create_locals_def) 
  have dist: "distinct (map fst ?params)" by (simp add: create_locals_def)
  have keys: "map fst ?params = [''username'', ''givenName'', ''fullName'', ''sn'', ''employeeType'',
                  ''dNumber'', ''ou'', ''businessCategory'', ''userPassword'']"
    by (simp add: create_locals_def)
  from first_missing_Some [where order = "dict_order rt" and params = ?params, OF dist assms empty]
  obtain item before after where
    "first_missing (dict_order rt) ?params = Some item"
    "dict_order rt (map fst ?params) = before @ item # after"
    "(item, []) \<in> set ?params" "\<forall>k \<in> set before. (k, []) \<notin> set ?params"
    by blast
  then show "\<exists>item before after.
             create rt cfg username givenName fullName sn employeeType dNumber ou
               businessCategory userPassword s
               = (Inr (''ERROR: Missing an expected input value for '' @ item @ '' in input file''), s)
             \<and> dict_order rt [''username'', ''givenName'', ''fullName'', ''sn'', ''employeeType'',
                  ''dNumber'', ''ou'', ''businessCategory'', ''userPassword'']
                 = before @ item # after
             \<and> (item, []) \<in> set ?params
             \<and> (\<forall>k \<in> set before. (k, []) \<notin> set ?params)"
    unfolding keys by (intro exI [of _ item] exI [of _ before] exI [of _ after])
      (simp add: create_def missing_value_def)
next
  let ?params = "update_locals username newusername uidNumber gidNumber givenName fullName
                   sn employeeType dNumber ou businessCategory"
  assume "[] \<in> set [username, newusername, uidNumber, gidNumber, givenName, fullName, sn,
                    employeeType, dNumber, ou, businessCategory]"
  then have empty: "[] \<in> snd ` set ?params" by (simp add: update_locals_def) 
  have dist: "distinct (map fst ?params)" by (simp add: update_locals_def)
  have keys: "map fst ?params = [''username'', ''newusername'', ''uidNumber'', ''gidNumber'',
                  ''givenName'', ''fullName'', ''sn'', ''employeeType'', ''dNumber'', ''ou'',
                  ''businessCategory'']"
    by (simp add: update_locals_def)
  from first_missing_Some [where order = "dict_order rt" and params = ?params, OF dist assms empty]
  obtain item before after where
    "first_missing (dict_order rt) ?params = Some item"
    "dict_order rt (map fst ?params) = before @ item # after"
    "(item, []) \<in> set ?params" "\<forall>k \<in> set before. (k, []) \<notin> set ?params"
    by blast
  then show "\<exists>item before after.
             update rt cfg username newusername uidNumber gidNumber givenName fullName sn
               employeeType dNumber ou businessCategory s
               = (Inr (''ERROR: Missing an expected input value for '' @ item @ '' in input file''), s)
             \<and> dict_order rt [''username'', ''newusername'', ''uidNumber'', ''gidNumber'',
                  ''givenName'', ''fullName'', ''sn'', ''employeeType'', ''dNumber'', ''ou'',
                  ''businessCategory'']
                 = before @ item # after
             \<and> (item, []) \<in> set ?params
             \<and> (\<forall>k \<in> set before. (k, []) \<notin> set ?params)"
    unfolding keys by (intro exI [of _ item] exI [of _ before] exI [of _ after])
      (simp add: update_def missing_value_def)
next
  show "delete rt cfg [] s
           = (Inr ''ERROR: Missing an expected input value for username in input file'', s)"
    by (simp add: delete_def)
qed

theorem missing_value_reported_witness:
  "create on_script campus ''jdoe'' [] ''Jane Doe'' ''Doe'' ''ADM'' ''D0000001'' ''Biology''
     ''staff'' ''pw1'' (start [])
   = (Inr ''ERROR: Missing an expected input value for givenName in input file'', start [])
   \<and> update on_script campus ''jdoe'' ''jdoe'' ''15549'' [] ''Jane'' ''Jane Doe'' ''Doe'' ''ADM''
       ''D0000001'' [] ''staff'' (start [])
     = (Inr ''ERROR: Missing an expected input value for gidNumber in input file'', start [])
   \<and> delete on_script campus [] (start [])
     = (Inr ''ERROR: Missing an expected input value for username in input file'', start [])"
proof -
  have keys: "\<And>ks. set (dict_order on_script ks) = set ks"
    by (simp add: on_script_def)
  show ?thesis
    using missing_value_reported [OF keys, of "''jdoe''" "[]" "''Jane Doe''" "''Doe''" "''ADM''"
        "''D0000001''" "''Biology''" "''staff''" "''pw1''" campus "start []"]
    by (simp add: create_def update_def create_locals_def update_locals_def first_missing_def
        missing_value_def on_script_def)
qed

text \<open>
  C5 as stated fails on the format: the text of the result is not
  \<open>missing value for <field>\<close>, and that wording does not occur in it.
\<close>

theorem missing_value_format_counterexample:
  "fst (create on_script campus ''jdoe'' [] ''Jane Doe'' ''Doe'' ''ADM'' ''D0000001'' ''Biology''
          ''staff'' ''pw1'' (start []))
   = Inr ''ERROR: Missing an expected input value for givenName in input file''
   \<and> \<not> str_in ''missing value for''
         ''ERROR: Missing an expected input value for givenName in input file''"
  by (simp add: create_def create_locals_def first_missing_def missing_value_def on_script_def)

subsection \<open>Closing the connection\<close>

text \<open>The steps as functions of the connection, without intermediate states.\<close>

lemma request_eq:
  "request l c s =
     (fst (l c (world s)),
      \<lparr>world = snd (l c (world s)), trace = trace s @ [(c, fst (l c (world s)) \<noteq> None)]\<rparr>)"
  by (simp add: request_def split: prod.splits)

lemmas steps = ldapConnect_def findUser_def containsPosixAccount_def Let_def request_eq

lemma update_rename_calls:
  "\<exists>cs. trace (snd (update_rename cfg l username newusername s)) = trace s @ cs
        \<and> (\<forall>ok. (Unbind, ok) \<notin> set cs)"
  by (auto simp: update_rename_def steps split: option.splits if_splits)

lemma update_modify_calls:
  "\<exists>cs. trace (snd (update_modify cfg l username newusername uidNumber gidNumber givenName
            fullName sn employeeType dNumber ou businessCategory dn0 s)) = trace s @ cs
        \<and> (fst (update_modify cfg l username newusername uidNumber gidNumber givenName
            fullName sn employeeType dNumber ou businessCategory dn0 s)
              \<noteq> Inr ''SUCCESS: User updated in ldap'' \<longrightarrow> (Unbind, True) \<notin> set cs)"
  by (auto simp: update_modify_def steps split: option.splits if_splits)


lemma update_tail_calls:
  "\<exists>cs. trace (snd (case (if username \<noteq> newusername
                           then update_rename cfg l username newusername s2
                           else (Inr (Continued None), s2)) of
                      (Inl e, s3) \<Rightarrow> (Inl e, s3)
                    | (Inr (Returned result), s3) \<Rightarrow> (Inr result, s3)
                    | (Inr (Continued d0), s3) \<Rightarrow>
                        update_modify cfg l username newusername uidNumber gidNumber givenName
                          fullName sn employeeType dNumber ou businessCategory d0 s3))
          = trace s2 @ cs
        \<and> (fst (case (if username \<noteq> newusername
                           then update_rename cfg l username newusername s2
                           else (Inr (Continued None), s2)) of
                      (Inl e, s3) \<Rightarrow> (Inl e, s3)
                    | (Inr (Returned result), s3) \<Rightarrow> (Inr result, s3)
                    | (Inr (Continued d0), s3) \<Rightarrow>
                        update_modify cfg l username newusername uidNumber gidNumber givenName
                          fullName sn employeeType dNumber ou businessCategory d0 s3)
              \<noteq> Inr ''SUCCESS: User updated in ldap'' \<longrightarrow> (Unbind, True) \<notin> set cs)"
proof (cases "username \<noteq> newusername")
  case False
  then show ?thesis using update_modify_calls [of cfg l username newusername uidNumber gidNumber
      givenName fullName sn employeeType dNumber ou businessCategory None s2] by simp
next
  case True
  obtain r s3 where ren: "update_rename cfg l username newusername s2 = (r, s3)"
    by (cases "update_rename cfg l username newusername s2")
  from update_rename_calls [of cfg l username newusername s2] ren
  obtain cs where cs: "trace s3 = trace s2 @ cs" "\<forall>ok. (Unbind, ok) \<notin> set cs" by auto
  show ?thesis
  proof (cases r)
    case (Inl e)
    with True ren cs show ?thesis by simp
  next
    case (Inr x)
    show ?thesis
    proof (cases x)
      case (Returned result)
      with True ren cs Inr show ?thesis by simp
    next
      case (Continued d0)
      from update_modify_calls [of cfg l username newusername uidNumber gidNumber
          givenName fullName sn employeeType dNumber ou businessCategory d0 s3]
      obtain cs' where cs': "trace (snd (update_modify cfg l username newusername uidNumber
            gidNumber givenName fullName sn employeeType dNumber ou businessCategory d0 s3))
            = trace s3 @ cs'"
          "fst (update_modify cfg l username newusername uidNumber gidNumber givenName
            fullName sn employeeType dNumber ou businessCategory d0 s3)
              \<noteq> Inr ''SUCCESS: User updated in ldap'' \<longrightarrow> (Unbind, True) \<notin> set cs'"
        by blast
      with True ren cs Inr Continued show ?thesis by simp
    qed
  qed
qed

lemma update_no_unbind:
  "fst (update rt cfg username newusername uidNumber gidNumber givenName fullName sn
           employeeType dNumber ou businessCategory s) \<noteq> Inr ''SUCCESS: User updated in ldap'' \<longrightarrow>
      (Unbind, True) \<notin> set (calls_since s (snd (update rt cfg username newusername uidNumber
           gidNumber givenName fullName sn employeeType dNumber ou businessCategory s)))"
proof (cases "first_missing (dict_order rt) (update_locals username newusername
      uidNumber gidNumber givenName fullName sn employeeType dNumber ou businessCategory)")
  case (Some item)
  then show ?thesis by (simp add: update_def calls_since_def)
next
  case None
  obtain ok s1 where conn: "ldapConnect cfg (ldap rt) s = (ok, s1)"
    by (cases "ldapConnect cfg (ldap rt) s")
  note t1 = ldapConnect_trace [OF conn]
  show ?thesis
  proof (cases ok)
    case False
    with None conn t1 show ?thesis by (simp add: update_def calls_since_def)
  next
    case True
    obtain r s2 where find: "findUser cfg (ldap rt) username s1 = (r, s2)"
      by (cases "findUser cfg (ldap rt) username s1")
    note t2 = findUser_trace [OF find]
    show ?thesis
    proof (cases r)
      case (Inl e)
      with None conn True find t1 t2 show ?thesis by (simp add: update_def calls_since_def)
    next
      case (Inr exists)
      show ?thesis
      proof (cases exists)
        case False
        with None conn True find Inr t1 t2 show ?thesis
          by (simp add: update_def calls_since_def)
      next
        case found: True
        from update_tail_calls [where username = username and newusername = newusername
            and cfg = cfg and l = "ldap rt" and ?s2.0 = s2 and uidNumber = uidNumber
            and gidNumber = gidNumber and givenName = givenName and fullName = fullName
            and sn = sn and employeeType = employeeType and dNumber = dNumber and ou = ou
            and businessCategory = businessCategory]
        show ?thesis
          using None conn True find Inr found t1 t2
          by (auto simp: update_def calls_since_def)
      qed
    qed
  qed
qed


text \<open>
  C4. The claim is that a processor that has opened a connection closes it on every exit
  path. The code calls \<open>unbind_s\<close> on one path only, after a successful add, modify or
  delete: on every exit of \<open>create\<close>, \<open>update\<close> and \<open>delete\<close> with another result than
  the success result, and on every exit by an exception, no unbind has succeeded, whether
  or not the processor had connected.
\<close>

theorem error_exits_do_not_unbind:
  "(fst (create rt cfg username givenName fullName sn employeeType dNumber ou businessCategory
           userPassword s) \<noteq> Inr ''SUCCESS: User added to ldap'' \<longrightarrow>
      (Unbind, True) \<notin> set (calls_since s (snd (create rt cfg username givenName fullName sn
           employeeType dNumber ou businessCategory userPassword s))))
   \<and> (fst (update rt cfg username newusername uidNumber gidNumber givenName fullName sn
           employeeType dNumber ou businessCategory s) \<noteq> Inr ''SUCCESS: User updated in ldap'' \<longrightarrow>
      (Unbind, True) \<notin> set (calls_since s (snd (update rt cfg username newusername uidNumber
           gidNumber givenName fullName sn employeeType dNumber ou businessCategory s))))
   \<and> (fst (delete rt cfg username s) \<noteq> Inr ''SUCCESS: User deleted from ldap'' \<longrightarrow>
      (Unbind, True) \<notin> set (calls_since s (snd (delete rt cfg username s))))"
proof (intro conjI)
  show "fst (create rt cfg username givenName fullName sn employeeType dNumber ou businessCategory
           userPassword s) \<noteq> Inr ''SUCCESS: User added to ldap'' \<longrightarrow>
      (Unbind, True) \<notin> set (calls_since s (snd (create rt cfg username givenName fullName sn
           employeeType dNumber ou businessCategory userPassword s)))"
    by (auto simp: create_def steps calls_since_def split: option.splits if_splits)
  show "fst (update rt cfg username newusername uidNumber gidNumber givenName fullName sn
           employeeType dNumber ou businessCategory s) \<noteq> Inr ''SUCCESS: User updated in ldap'' \<longrightarrow>
      (Unbind, True) \<notin> set (calls_since s (snd (update rt cfg username newusername uidNumber
           gidNumber givenName fullName sn employeeType dNumber ou businessCategory s)))"
    by (rule update_no_unbind)
  show "fst (delete rt cfg username s) \<noteq> Inr ''SUCCESS: User deleted from ldap'' \<longrightarrow>
      (Unbind, True) \<notin> set (calls_since s (snd (delete rt cfg username s)))"
    by (auto simp: delete_def steps calls_since_def split: option.splits if_splits)
qed

text \<open>The definitions that evaluate a run on the scripted connection.\<close>

lemmas runs = create_def update_def delete_def update_rename_def update_modify_def
  create_locals_def update_locals_def first_missing_def steps scripted_def on_script_def
  start_def calls_since_def

theorem error_exits_do_not_unbind_witness:
  "create on_script campus ''jdoe'' ''Jane'' ''Jane Doe'' ''Doe'' ''ADM'' ''D0000001'' ''Biology''
     ''staff'' ''pw1'' (start [Some [], Some [''uid=jdoe,ou=people,dc=university,dc=edu'']])
   = (Inr ''ERROR: username already taken!'',
      \<lparr>world = [],
       trace = [(Bind (LDAPSERVER campus) (USER campus) (PASSWORD campus), True),
                (Search (baseDN campus) ''uid=jdoe'', True)]\<rparr>)
   \<and> (Unbind, True) \<notin> set (calls_since
         (start [Some [], Some [''uid=jdoe,ou=people,dc=university,dc=edu'']])
         (snd (create on_script campus ''jdoe'' ''Jane'' ''Jane Doe'' ''Doe'' ''ADM'' ''D0000001''
                ''Biology'' ''staff'' ''pw1''
                (start [Some [], Some [''uid=jdoe,ou=people,dc=university,dc=edu'']]))))"
proof -
  have run: "create on_script campus ''jdoe'' ''Jane'' ''Jane Doe'' ''Doe'' ''ADM'' ''D0000001''
      ''Biology'' ''staff'' ''pw1''
      (start [Some [], Some [''uid=jdoe,ou=people,dc=university,dc=edu'']])
    = (Inr ''ERROR: username already taken!'',
      \<lparr>world = [],
       trace = [(Bind (LDAPSERVER campus) (USER campus) (PASSWORD campus), True),
                (Search (baseDN campus) ''uid=jdoe'', True)]\<rparr>)"
    by (simp add: runs)
  then have "fst (create on_script campus ''jdoe'' ''Jane'' ''Jane Doe'' ''Doe'' ''ADM''
      ''D0000001'' ''Biology'' ''staff'' ''pw1''
      (start [Some [], Some [''uid=jdoe,ou=people,dc=university,dc=edu'']]))
    \<noteq> Inr ''SUCCESS: User added to ldap''"
    by simp
  with error_exits_do_not_unbind [where rt = on_script and cfg = campus
      and username = "''jdoe''" and givenName = "''Jane''" and fullName = "''Jane Doe''"
      and sn = "''Doe''" and employeeType = "''ADM''" and dNumber = "''D0000001''"
      and ou = "''Biology''" and businessCategory = "''staff''" and userPassword = "''pw1''"
      and s = "start [Some [], Some [''uid=jdoe,ou=people,dc=university,dc=edu'']]"]
  have "(Unbind, True) \<notin> set (calls_since
         (start [Some [], Some [''uid=jdoe,ou=people,dc=university,dc=edu'']])
         (snd (create on_script campus ''jdoe'' ''Jane'' ''Jane Doe'' ''Doe'' ''ADM'' ''D0000001''
                ''Biology'' ''staff'' ''pw1''
                (start [Some [], Some [''uid=jdoe,ou=people,dc=university,dc=edu'']]))))"
    by blast
  with run show ?thesis by blast
qed

subsection \<open>An error of the rename\<close>

text \<open>
  C2. The claim is that a transport failure during the rename makes \<open>update\<close> return an
  error result. The code does not: the handler around \<open>rename_s\<close> assigns the error result
  and does not return, so \<open>update\<close> goes on to the modification. On a connection where
  the bind and the searches return, \<open>rename_s\<close> raises, and \<open>modify_s\<close> and \<open>unbind_s\<close>
  return, \<open>update\<close> returns the success result.
\<close>

theorem rename_error_is_not_returned:
  assumes "ldap rt = scripted"
    and "[] \<notin> set [username, newusername, uidNumber, gidNumber, givenName, fullName, sn,
                      employeeType, dNumber, ou, businessCategory]"
    and "username \<noteq> newusername"
    and "getUserType cfg username = getUserType cfg newusername"
  shows "update rt cfg username newusername uidNumber gidNumber givenName fullName sn
           employeeType dNumber ou businessCategory
           (start [Some [], Some [d], Some [], None, Some [], Some [], Some [], Some []])
         = (Inr ''SUCCESS: User updated in ldap'',
            \<lparr>world = [],
             trace = [(Bind (LDAPSERVER cfg) (USER cfg) (PASSWORD cfg), True),
                      (Search (baseDN cfg) (''uid='' @ username), True),
                      (Search (baseDN cfg) (''uid='' @ newusername), True),
                      (Rename (buildDN cfg username) (''uid='' @ newusername), False),
                      (Search (baseDN cfg) (''uid='' @ newusername), True),
                      (Search (baseDN cfg)
                         (''(&(uid='' @ username @ '')(objectClass=posixAccount))''), True),
                      (Modify (buildDN cfg newusername)
                         (standard_mod_attrs cfg newusername givenName fullName sn employeeType
                            dNumber ou businessCategory), True),
                      (Unbind, True)]\<rparr>)"
proof -
  from assms(2) have "first_missing (dict_order rt) (update_locals username newusername
      uidNumber gidNumber givenName fullName sn employeeType dNumber ou businessCategory) = None"
    by (rule update_locals_complete)
  with assms(1,3,4) show ?thesis
    by (simp add: update_def update_rename_def update_modify_def steps scripted_def start_def)
qed

theorem rename_error_is_not_returned_witness:
  "fst (update on_script campus ''bob'' ''rob'' ''15549'' ''15549'' ''Robert'' ''Robert Roe'' ''Roe''
          ''ADM'' ''D01234567'' ''Biology'' ''staff''
          (start [Some [], Some [''uid=bob,ou=people,dc=university,dc=edu''], Some [], None,
                  Some [], Some [], Some [], Some []]))
   = Inr ''SUCCESS: User updated in ldap''
   \<and> (Rename ''uid=bob,ou=people,dc=university,dc=edu'' ''uid=rob'', False)
       \<in> set (trace (snd (update on_script campus ''bob'' ''rob'' ''15549'' ''15549'' ''Robert''
          ''Robert Roe'' ''Roe'' ''ADM'' ''D01234567'' ''Biology'' ''staff''
          (start [Some [], Some [''uid=bob,ou=people,dc=university,dc=edu''], Some [], None,
                  Some [], Some [], Some [], Some []]))))"
proof -
  have types: "getUserType campus ''bob'' = getUserType campus ''rob''"
    by (simp add: getUserType_def campus_def slice_to_def)
  have dn: "buildDN campus ''bob'' = ''uid=bob,ou=people,dc=university,dc=edu''"
    by (simp add: buildDN_def getUserType_def campus_def slice_to_def)
  have conn: "ldap on_script = scripted" by (simp add: on_script_def)
  show ?thesis
    using rename_error_is_not_returned [OF conn _ _ types, of "''15549''" "''15549''" "''Robert''"
        "''Robert Roe''" "''Roe''" "''ADM''" "''D01234567''" "''Biology''" "''staff''"
        "''uid=bob,ou=people,dc=university,dc=edu''"] dn
    by simp
qed

subsection \<open>The batch\<close>

text \<open>
  C1. The claim is that the report has one row for every input record and that a failure
  of one record never stops the batch. The code does not isolate an exception: when the
  processing of a record raises (as it does when a search raises, see C3), the loop of
  \<open>main\<close> is left, and neither that record nor any later one gets a row.
\<close>

theorem exception_ends_the_batch:
  assumes "fst (run_action rt cfg row s) = Inl e"
  shows "fst (main rt cfg (row # rows) s) = [[''action'', ''username'', ''result'']]"
  using assms by (cases "run_action rt cfg row s") (simp add: main_def)

theorem exception_ends_the_batch_witness:
  "fst (main on_script campus
          [map_of [(''action'', ''delete''), (''username'', ''ghost'')],
           map_of [(''action'', ''delete''), (''username'', ''bob'')]]
          (start [Some [], None]))
   = [[''action'', ''username'', ''result'']]"
proof -
  have "fst (run_action on_script campus
          (map_of [(''action'', ''delete''), (''username'', ''ghost'')]) (start [Some [], None]))
        = Inl UnboundLocalError"
    by (simp add: run_action_def getitem_def runs)
  then show ?thesis by (rule exception_ends_the_batch)
qed

text \<open>
  What holds: on a connection whose searches never raise, no processor raises, and for
  rows that hold every key the script reads the report has the header and one row for
  every input record, in the order of the input, starting with the record's action and
  username.
\<close>

lemma findUser_returns:
  "searches_return l \<Longrightarrow> \<exists>b. fst (findUser cfg l username s) = Inr b"
  by (auto simp: searches_return_def steps split: option.splits)

lemma containsPosixAccount_returns:
  "searches_return l \<Longrightarrow> \<exists>b. fst (containsPosixAccount cfg l username s) = Inr b"
  by (auto simp: searches_return_def steps split: option.splits)

lemma create_returns:
  assumes "searches_return (ldap rt)"
  shows "\<exists>r. fst (create rt cfg username givenName fullName sn employeeType dNumber ou
           businessCategory userPassword s) = Inr r"
proof -
  obtain ok s1 where conn: "ldapConnect cfg (ldap rt) s = (ok, s1)"
    by (cases "ldapConnect cfg (ldap rt) s")
  obtain r s2 where find: "findUser cfg (ldap rt) username s1 = (r, s2)"
    by (cases "findUser cfg (ldap rt) username s1")
  from findUser_returns [OF assms, of cfg username s1] find obtain b where "r = Inr b" by auto
  with conn find show ?thesis
    by (auto simp: create_def Let_def split: option.splits prod.splits)
qed

lemma delete_returns:
  assumes "searches_return (ldap rt)"
  shows "\<exists>r. fst (delete rt cfg username s) = Inr r"
proof -
  obtain ok s1 where conn: "ldapConnect cfg (ldap rt) s = (ok, s1)"
    by (cases "ldapConnect cfg (ldap rt) s")
  obtain r s2 where find: "findUser cfg (ldap rt) username s1 = (r, s2)"
    by (cases "findUser cfg (ldap rt) username s1")
  from findUser_returns [OF assms, of cfg username s1] find obtain b where "r = Inr b" by auto
  with conn find show ?thesis
    by (auto simp: delete_def Let_def split: option.splits prod.splits)
qed

lemma update_rename_returns:
  assumes "searches_return l"
  shows "\<exists>x. fst (update_rename cfg l username newusername s) = Inr x"
proof -
  obtain r s1 where find: "findUser cfg l newusername s = (r, s1)"
    by (cases "findUser cfg l newusername s")
  from findUser_returns [OF assms, of cfg newusername s] find obtain b where b: "r = Inr b"
    by auto
  have again: "\<exists>b'. fst (findUser cfg l newusername s') = Inr b'" for s'
    by (rule findUser_returns [OF assms])
  show ?thesis
  proof (cases b)
    case True
    with find b show ?thesis by (simp add: update_rename_def Let_def)
  next
    case False
    obtain r2 s2 where ren: "request l (Rename (buildDN cfg username) (''uid='' @ newusername)) s1
        = (r2, s2)"
      by (cases "request l (Rename (buildDN cfg username) (''uid='' @ newusername)) s1")
    obtain r3 s3 where find2: "findUser cfg l newusername s2 = (r3, s3)"
      by (cases "findUser cfg l newusername s2")
    from again [of s2] find2 obtain b' where "r3 = Inr b'" by auto
    with False find b ren find2 show ?thesis by (simp add: update_rename_def Let_def)
  qed
qed

lemma update_modify_returns:
  assumes "searches_return l"
  shows "\<exists>r. fst (update_modify cfg l username newusername uidNumber gidNumber givenName
            fullName sn employeeType dNumber ou businessCategory dn0 s) = Inr r"
proof -
  obtain r s1 where px: "containsPosixAccount cfg l username s = (r, s1)"
    by (cases "containsPosixAccount cfg l username s")
  from containsPosixAccount_returns [OF assms, of cfg username s] px
  obtain b where "r = Inr b" by auto
  with px show ?thesis
    by (auto simp: update_modify_def Let_def split: option.splits prod.splits)
qed

lemma update_returns:
  assumes "searches_return (ldap rt)"
  shows "\<exists>r. fst (update rt cfg username newusername uidNumber gidNumber givenName fullName sn
           employeeType dNumber ou businessCategory s) = Inr r"
proof -
  obtain ok s1 where conn: "ldapConnect cfg (ldap rt) s = (ok, s1)"
    by (cases "ldapConnect cfg (ldap rt) s")
  obtain r s2 where find: "findUser cfg (ldap rt) username s1 = (r, s2)"
    by (cases "findUser cfg (ldap rt) username s1")
  from findUser_returns [OF assms, of cfg username s1] find obtain b where b: "r = Inr b" by auto
  obtain x s3 where ren: "update_rename cfg (ldap rt) username newusername s2 = (x, s3)"
    by (cases "update_rename cfg (ldap rt) username newusername s2")
  from update_rename_returns [OF assms, of cfg username newusername s2] ren
  obtain y where y: "x = Inr y" by auto
  have modify: "\<exists>r. fst (update_modify cfg (ldap rt) username newusername uidNumber gidNumber
      givenName fullName sn employeeType dNumber ou businessCategory d0 s') = Inr r" for d0 s'
    by (rule update_modify_returns [OF assms])
  show ?thesis
    using conn find b ren y modify
    by (auto simp: update_def Let_def split: option.splits prod.splits rename_exit.splits)
qed

lemma getitem_present: "row key \<noteq> None \<Longrightarrow> getitem row key = Inr (the (row key))"
  by (auto simp: getitem_def)

lemma run_action_returns:
  assumes "searches_return (ldap rt)" and "has_all_keys row"
  shows "\<exists>r. fst (run_action rt cfg row s) = Inr r"
proof -
  from assms(2) have present:
    "getitem row ''action'' = Inr (the (row ''action''))"
    "getitem row ''username'' = Inr (the (row ''username''))"
    "getitem row ''newusername'' = Inr (the (row ''newusername''))"
    "getitem row ''uidNumber'' = Inr (the (row ''uidNumber''))"
    "getitem row ''gidNumber'' = Inr (the (row ''gidNumber''))"
    "getitem row ''givenName'' = Inr (the (row ''givenName''))"
    "getitem row ''fullName'' = Inr (the (row ''fullName''))"
    "getitem row ''sn'' = Inr (the (row ''sn''))"
    "getitem row ''employeeType'' = Inr (the (row ''employeeType''))"
    "getitem row ''DNumber'' = Inr (the (row ''DNumber''))"
    "getitem row ''primO'' = Inr (the (row ''primO''))"
    "getitem row ''businessCategory'' = Inr (the (row ''businessCategory''))"
    "getitem row ''userPassword'' = Inr (the (row ''userPassword''))"
    by (simp_all add: has_all_keys_def getitem_present)
  show ?thesis
    using create_returns [OF assms(1)] update_returns [OF assms(1)] delete_returns [OF assms(1)]
    by (simp add: run_action_def present)
qed

lemma write_rows_complete:
  assumes "searches_return (ldap rt)" and "\<forall>row \<in> set rows. has_all_keys row"
  shows "map (take 2) (fst (write_rows rt cfg rows out s))
         = map (take 2) out
           @ map (\<lambda>row. [the (row ''action''), the (row ''username'')]) rows"
  using assms(2)
proof (induction rows arbitrary: out s)
  case Nil
  then show ?case by simp
next
  case (Cons row rows)
  then have keys: "has_all_keys row" by simp
  then have present: "getitem row ''action'' = Inr (the (row ''action''))"
    "getitem row ''username'' = Inr (the (row ''username''))"
    by (simp_all add: has_all_keys_def getitem_present)
  obtain r s1 where run: "run_action rt cfg row s = (r, s1)"
    by (cases "run_action rt cfg row s")
  from run_action_returns [OF assms(1) keys, of cfg s] run obtain result where "r = Inr result"
    by auto
  with run present Cons.prems
    Cons.IH [of "out @ [[the (row ''action''), the (row ''username''), result]]" s1]
  show ?case by simp
qed

lemma main_complete:
  assumes "searches_return (ldap rt)" and "\<forall>row \<in> set useractions. has_all_keys row"
  shows "length (fst (main rt cfg useractions s)) = 1 + length useractions
         \<and> map (take 2) (tl (fst (main rt cfg useractions s)))
           = map (\<lambda>row. [the (row ''action''), the (row ''username'')]) useractions"
proof -
  have m: "map (take 2) (fst (main rt cfg useractions s))
        = [''action'', ''username'']
          # map (\<lambda>row. [the (row ''action''), the (row ''username'')]) useractions"
    using write_rows_complete [OF assms, of cfg "[[''action'', ''username'', ''result'']]" s]
    by (simp add: main_def)
  then have "length (map (take 2) (fst (main rt cfg useractions s))) = 1 + length useractions"
    by simp
  moreover from m have "map (take 2) (tl (fst (main rt cfg useractions s)))
           = map (\<lambda>row. [the (row ''action''), the (row ''username'')]) useractions"
    by (simp add: map_tl)
  ultimately show ?thesis by simp
qed

text \<open>A row without a key that its action reads ends the batch as well.\<close>

lemma missing_key_ends_the_batch:
  "fst (main on_script campus
          [map_of [(''action'', ''create''), (''username'', ''jdoe'')],
           map_of [(''action'', ''delete''), (''username'', ''bob'')]]
          (start []))
   = [[''action'', ''username'', ''result'']]"
  by (simp add: main_def run_action_def getitem_def)

subsection \<open>The POSIX check after a rename\<close>

text \<open>
  The rest is about the script on the directory server \<open>slapd\<close>: what its searches
  return, and what a rename does to the entries.
\<close>

lemma parse_filter_uid: "parse_filter (''uid='' @ u) = Some (u, False)"
  by (simp add: parse_filter_def)





lemma slapd_Bind_entries: "entries (snd (slapd (Bind a b c) w)) = entries w"
  by (simp add: slapd_def split: list.splits)

lemma slapd_Search_result:
  "fst (slapd (Search b f) w) = Some r \<Longrightarrow> parse_filter f = Some (u, p) \<Longrightarrow>
   r = map dn (filter (matches u p) (entries w))"
  by (auto simp: slapd_def split: list.splits option.splits if_splits)





lemma matches_plain: "matches u False = (\<lambda>e. uid e = u)"
  by (auto simp: matches_def)











lemma ldapConnect_slapd:
  "ldapConnect cfg slapd s = (ok, s1) \<Longrightarrow> entries (world s1) = entries (world s)"
  by (auto simp: steps slapd_Bind_entries split: option.splits)




subsection \<open>After the existence check\<close>

lemma findUser_slapd_iff:
  assumes "findUser cfg slapd u s = (Inr b, s')"
  shows "b = (length (filter (\<lambda>e. uid e = u) (entries (world s))) = 1)"
proof -
  have res: "length (filter (\<lambda>e. uid e = u) (entries (world s))) = length x"
    if "fst (slapd (Search (baseDN cfg) (''uid='' @ u)) (world s)) = Some x" for x
    using slapd_Search_result [OF that parse_filter_uid] by (simp add: matches_plain)
  have one: "length x = Suc 0" if "x \<noteq> []" "\<not> Suc 0 < length x" for x :: "string list"
    using that by (cases x) auto
  from assms res one show ?thesis
    by (auto simp: steps split: option.splits if_splits)
qed

lemma create_slapd_no_add:
  assumes conn: "ldap rt = slapd"
    and one: "length (filter (\<lambda>e. uid e = username) (entries (world s))) = 1"
  shows "\<forall>d ldif ok. (Add d ldif, ok) \<notin> set (calls_since s (snd (create rt cfg username
           givenName fullName sn employeeType dNumber ou businessCategory userPassword s)))"
proof (cases "first_missing (dict_order rt) (create_locals username givenName fullName sn
      employeeType dNumber ou businessCategory userPassword)")
  case (Some item)
  then show ?thesis by (simp add: create_def calls_since_def)
next
  case None
  obtain ok s1 where lc: "ldapConnect cfg slapd s = (ok, s1)"
    by (cases "ldapConnect cfg slapd s")
  note t1 = ldapConnect_trace [OF lc]
  note e1 = ldapConnect_slapd [OF lc]
  show ?thesis
  proof (cases ok)
    case False
    with None lc conn t1 show ?thesis by (simp add: create_def calls_since_def)
  next
    case True
    obtain r s2 where fu: "findUser cfg slapd username s1 = (r, s2)"
      by (cases "findUser cfg slapd username s1")
    note t2 = findUser_trace [OF fu]
    show ?thesis
    proof (cases r)
      case (Inl e)
      with None lc True fu conn t1 t2 show ?thesis by (simp add: create_def calls_since_def)
    next
      case (Inr b)
      with findUser_slapd_iff [of cfg username s1 b s2] fu one e1 have b by simp
      with None lc True fu Inr conn t1 t2 show ?thesis by (simp add: create_def calls_since_def)
    qed
  qed
qed

lemma absent_slapd_no_change:
  assumes conn: "ldap rt = slapd"
    and none: "\<forall>e \<in> set (entries (world s)). uid e \<noteq> username"
  shows "(\<forall>c ok. (c, ok) \<in> set (calls_since s (snd (update rt cfg username newusername uidNumber
            gidNumber givenName fullName sn employeeType dNumber ou businessCategory s))) \<longrightarrow>
            (\<exists>a b c'. c = Bind a b c') \<or> (\<exists>a b. c = Search a b))
       \<and> (\<forall>c ok. (c, ok) \<in> set (calls_since s (snd (delete rt cfg username s))) \<longrightarrow>
            (\<exists>a b c'. c = Bind a b c') \<or> (\<exists>a b. c = Search a b))"
proof -
  obtain ok s1 where lc: "ldapConnect cfg slapd s = (ok, s1)"
    by (cases "ldapConnect cfg slapd s")
  note t1 = ldapConnect_trace [OF lc]
  note e1 = ldapConnect_slapd [OF lc]
  obtain r s2 where fu: "findUser cfg slapd username s1 = (r, s2)"
    by (cases "findUser cfg slapd username s1")
  note t2 = findUser_trace [OF fu]
  from none e1 have "filter (\<lambda>e. uid e = username) (entries (world s1)) = []"
    by (simp add: filter_empty_conv)
  then have notfound: "r \<noteq> Inr True"
    using findUser_slapd_iff [of cfg username s1 True s2] fu by auto
  have upd: "\<forall>c ok. (c, ok) \<in> set (calls_since s (snd (update rt cfg username newusername
            uidNumber gidNumber givenName fullName sn employeeType dNumber ou businessCategory s)))
            \<longrightarrow> (\<exists>a b c'. c = Bind a b c') \<or> (\<exists>a b. c = Search a b)"
  proof (cases "first_missing (dict_order rt) (update_locals username newusername
      uidNumber gidNumber givenName fullName sn employeeType dNumber ou businessCategory)")
    case (Some item)
    then show ?thesis by (simp add: update_def calls_since_def)
  next
    case None
    show ?thesis
    proof (cases ok)
      case False
      with None lc conn t1 show ?thesis by (simp add: update_def calls_since_def)
    next
      case True
      show ?thesis
      proof (cases r)
        case (Inl e)
        with None lc True fu conn t1 t2 show ?thesis by (simp add: update_def calls_since_def)
      next
        case (Inr b)
        with notfound have "\<not> b" by simp
        with None lc True fu Inr conn t1 t2 show ?thesis
          by (simp add: update_def calls_since_def)
      qed
    qed
  qed
  have del: "\<forall>c ok. (c, ok) \<in> set (calls_since s (snd (delete rt cfg username s))) \<longrightarrow>
            (\<exists>a b c'. c = Bind a b c') \<or> (\<exists>a b. c = Search a b)"
  proof (cases "username = []")
    case True
    then show ?thesis by (simp add: delete_def calls_since_def)
  next
    case nonempty: False
    show ?thesis
    proof (cases ok)
      case False
      with nonempty lc conn t1 show ?thesis by (simp add: delete_def calls_since_def)
    next
      case True
      show ?thesis
      proof (cases r)
        case (Inl e)
        with nonempty lc True fu conn t1 t2 show ?thesis by (simp add: delete_def calls_since_def)
      next
        case (Inr b)
        with notfound have "\<not> b" by simp
        with nonempty lc True fu Inr conn t1 t2 show ?thesis
          by (simp add: delete_def calls_since_def)
      qed
    qed
  qed
  from upd del show ?thesis by (rule conjI)
qed


text \<open>
  C7, as amended. When \<open>create\<close> has all nine values, its bind succeeds and its existence
  check \<open>findUser\<close> returns true for the username, it returns the result
  \<open>ERROR: username already taken!\<close>, and the only calls it has made are the bind and the
  search of the check. And on the directory server, for every username that has exactly
  one entry, \<open>create\<close> performs no add, whatever its values and whatever its result.
\<close>

theorem create_existing_user:
  "([] \<notin> set [username, givenName, fullName, sn, employeeType, dNumber, ou, businessCategory,
                userPassword]
      \<and> ldapConnect cfg (ldap rt) s = (True, s1)
      \<and> findUser cfg (ldap rt) username s1 = (Inr True, s2)
     \<longrightarrow> create rt cfg username givenName fullName sn employeeType dNumber ou businessCategory
           userPassword s = (Inr ''ERROR: username already taken!'', s2)
         \<and> calls_since s s2 = [(Bind (LDAPSERVER cfg) (USER cfg) (PASSWORD cfg), True),
                (Search (baseDN cfg) (''uid='' @ username), True)])
   \<and> (ldap rd = slapd
      \<and> length (filter (\<lambda>e. uid e = username) (entries (world sd))) = 1
     \<longrightarrow> (\<forall>d ldif ok. (Add d ldif, ok) \<notin> set (calls_since sd (snd (create rd cfg username
             givenName fullName sn employeeType dNumber ou businessCategory userPassword sd)))))"
proof (intro conjI impI)
  assume pre: "[] \<notin> set [username, givenName, fullName, sn, employeeType, dNumber, ou,
                  businessCategory, userPassword]
      \<and> ldapConnect cfg (ldap rt) s = (True, s1)
      \<and> findUser cfg (ldap rt) username s1 = (Inr True, s2)"
  then have conn: "ldapConnect cfg (ldap rt) s = (True, s1)"
    and found: "findUser cfg (ldap rt) username s1 = (Inr True, s2)"
    by simp_all
  from pre have "first_missing (dict_order rt) (create_locals username givenName fullName
      sn employeeType dNumber ou businessCategory userPassword) = None"
    by (intro create_locals_complete) blast
  with conn found show "create rt cfg username givenName fullName sn employeeType
      dNumber ou businessCategory userPassword s = (Inr ''ERROR: username already taken!'', s2)"
    by (simp add: create_def Let_def)
  show "calls_since s s2 = [(Bind (LDAPSERVER cfg) (USER cfg) (PASSWORD cfg), True),
                (Search (baseDN cfg) (''uid='' @ username), True)]"
    using ldapConnect_trace [OF conn] findUser_trace [OF found]
    by (simp add: calls_since_def)
next
  assume "ldap rd = slapd
      \<and> length (filter (\<lambda>e. uid e = username) (entries (world sd))) = 1"
  then show "\<forall>d ldif ok. (Add d ldif, ok) \<notin> set (calls_since sd (snd (create rd cfg username
             givenName fullName sn employeeType dNumber ou businessCategory userPassword sd)))"
    using create_slapd_no_add by blast
qed

theorem create_existing_user_witness:
  "create on_script campus ''jdoe'' ''Jane'' ''Jane Doe'' ''Doe'' ''ADM'' ''D0000001'' ''Biology''
     ''staff'' ''pw1'' (start [Some [], Some [''uid=jdoe,ou=people,dc=university,dc=edu'']])
   = (Inr ''ERROR: username already taken!'',
      \<lparr>world = [],
       trace = [(Bind (LDAPSERVER campus) (USER campus) (PASSWORD campus), True),
                (Search (baseDN campus) ''uid=jdoe'', True)]\<rparr>)
   \<and> (\<forall>d ldif ok. (Add d ldif, ok) \<notin> set (calls_since (start bobdir)
         (snd (create on_slapd campus ''bob'' [] ''Bob Roe'' ''Roe'' ''ADM'' ''D01234567''
                ''Biology'' ''staff'' ''pw1'' (start bobdir)))))"
proof -
  have conn: "ldap on_slapd = slapd" by (simp add: on_slapd_def)
  have one: "length (filter (\<lambda>e. uid e = ''bob'') (entries (world (start bobdir)))) = 1"
    by (simp add: start_def bobdir_def)
  show ?thesis
    using create_existing_user [of "''jdoe''" "''Jane''" "''Jane Doe''" "''Doe''" "''ADM''"
      "''D0000001''" "''Biology''" "''staff''" "''pw1''" campus on_script
      "start [Some [], Some [''uid=jdoe,ou=people,dc=university,dc=edu'']]"
      "\<lparr>world = [Some [''uid=jdoe,ou=people,dc=university,dc=edu'']],
        trace = [(Bind (LDAPSERVER campus) (USER campus) (PASSWORD campus), True)]\<rparr>"
      "\<lparr>world = [],
        trace = [(Bind (LDAPSERVER campus) (USER campus) (PASSWORD campus), True),
                 (Search (baseDN campus) ''uid=jdoe'', True)]\<rparr>"]
      create_existing_user [where rd = on_slapd and cfg = campus and username = "''bob''"
        and givenName = "[]" and fullName = "''Bob Roe''" and sn = "''Roe''"
        and employeeType = "''ADM''" and dNumber = "''D01234567''" and ou = "''Biology''"
        and businessCategory = "''staff''" and userPassword = "''pw1''" and sd = "start bobdir"]
      conn one
    by (simp add: ldapConnect_def findUser_def request_def scripted_def on_script_def start_def)
qed

text \<open>
  C7 as stated fails: the check for missing values and the bind come before the existence
  check. The username has exactly one entry, and an existence check would return true;
  with an empty given name the result is the one of a missing value, and with a failed
  bind the one of a failed connection.
\<close>

theorem create_existing_user_counterexample:
  "length (filter (\<lambda>e. uid e = ''bob'') (entries bobdir)) = 1
   \<and> fst (findUser campus slapd ''bob'' (start bobdir)) = Inr True
   \<and> fst (create on_slapd campus ''bob'' [] ''Bob Roe'' ''Roe'' ''ADM'' ''D01234567'' ''Biology''
            ''staff'' ''pw1'' (start bobdir))
       = Inr ''ERROR: Missing an expected input value for givenName in input file''
   \<and> fst (create on_slapd campus ''bob'' ''Bob'' ''Bob Roe'' ''Roe'' ''ADM'' ''D01234567''
            ''Biology'' ''staff'' ''pw1'' (start (bobdir\<lparr>outage := [True]\<rparr>)))
       = Inr ''ERROR: unable to connect to LDAP server''"
  by code_simp


text \<open>
  C8, as amended. When \<open>update\<close> has all eleven values (\<open>delete\<close>: a username that is not
  empty), its bind succeeds and its existence check \<open>findUser\<close> returns false for the
  username, it returns the result \<open>ERROR: user could not be found!\<close>, and the only calls it
  has made are the bind and the search of the check. And on the directory server, for
  every username that has no entry, \<open>update\<close> performs no rename and no modify and
  \<open>delete\<close> performs no delete, whatever the values and whatever the result.
\<close>

theorem absent_user_not_found:
  "([] \<notin> set [username, newusername, uidNumber, gidNumber, givenName, fullName, sn,
                employeeType, dNumber, ou, businessCategory]
      \<and> ldapConnect cfg (ldap rt) s = (True, s1)
      \<and> findUser cfg (ldap rt) username s1 = (Inr False, s2)
     \<longrightarrow> update rt cfg username newusername uidNumber gidNumber givenName fullName sn
           employeeType dNumber ou businessCategory s
           = (Inr ''ERROR: user could not be found!'', s2)
         \<and> calls_since s s2 = [(Bind (LDAPSERVER cfg) (USER cfg) (PASSWORD cfg), True),
                (Search (baseDN cfg) (''uid='' @ username), True)])
   \<and> (username \<noteq> []
      \<and> ldapConnect cfg (ldap rt) s = (True, s1)
      \<and> findUser cfg (ldap rt) username s1 = (Inr False, s2)
     \<longrightarrow> delete rt cfg username s = (Inr ''ERROR: user could not be found!'', s2)
         \<and> calls_since s s2 = [(Bind (LDAPSERVER cfg) (USER cfg) (PASSWORD cfg), True),
                (Search (baseDN cfg) (''uid='' @ username), True)])
   \<and> (ldap rd = slapd \<and> filter (\<lambda>e. uid e = username) (entries (world sd)) = []
     \<longrightarrow> (\<forall>d x ok. (Rename d x, ok) \<notin> set (calls_since sd (snd (update rd cfg username
             newusername uidNumber gidNumber givenName fullName sn employeeType dNumber ou
             businessCategory sd))))
         \<and> (\<forall>d m ok. (Modify d m, ok) \<notin> set (calls_since sd (snd (update rd cfg username
             newusername uidNumber gidNumber givenName fullName sn employeeType dNumber ou
             businessCategory sd))))
         \<and> (\<forall>d ok. (Delete d, ok) \<notin> set (calls_since sd (snd (delete rd cfg username sd)))))"
proof (intro conjI impI)
  assume pre: "[] \<notin> set [username, newusername, uidNumber, gidNumber, givenName, fullName, sn,
                employeeType, dNumber, ou, businessCategory]
      \<and> ldapConnect cfg (ldap rt) s = (True, s1)
      \<and> findUser cfg (ldap rt) username s1 = (Inr False, s2)"
  then have conn: "ldapConnect cfg (ldap rt) s = (True, s1)"
    and absent: "findUser cfg (ldap rt) username s1 = (Inr False, s2)"
    by simp_all
  from pre have "first_missing (dict_order rt) (update_locals username newusername
      uidNumber gidNumber givenName fullName sn employeeType dNumber ou businessCategory) = None"
    by (intro update_locals_complete) blast
  with conn absent show "update rt cfg username newusername uidNumber gidNumber givenName
      fullName sn employeeType dNumber ou businessCategory s
      = (Inr ''ERROR: user could not be found!'', s2)"
    by (simp add: update_def Let_def)
  show "calls_since s s2 = [(Bind (LDAPSERVER cfg) (USER cfg) (PASSWORD cfg), True),
                (Search (baseDN cfg) (''uid='' @ username), True)]"
    using ldapConnect_trace [OF conn] findUser_trace [OF absent]
    by (simp add: calls_since_def)
next
  assume pre: "username \<noteq> []
      \<and> ldapConnect cfg (ldap rt) s = (True, s1)
      \<and> findUser cfg (ldap rt) username s1 = (Inr False, s2)"
  then have conn: "ldapConnect cfg (ldap rt) s = (True, s1)"
    and absent: "findUser cfg (ldap rt) username s1 = (Inr False, s2)"
    by simp_all
  from pre conn absent show "delete rt cfg username s
      = (Inr ''ERROR: user could not be found!'', s2)"
    by (simp add: delete_def)
  show "calls_since s s2 = [(Bind (LDAPSERVER cfg) (USER cfg) (PASSWORD cfg), True),
                (Search (baseDN cfg) (''uid='' @ username), True)]"
    using ldapConnect_trace [OF conn] findUser_trace [OF absent]
    by (simp add: calls_since_def)
next
  assume pre: "ldap rd = slapd \<and> filter (\<lambda>e. uid e = username) (entries (world sd)) = []"
  then have conn: "ldap rd = slapd"
    and none: "\<forall>e \<in> set (entries (world sd)). uid e \<noteq> username"
    by (simp_all add: filter_empty_conv)
  note calls = absent_slapd_no_change [OF conn none]
  from calls [THEN conjunct1]
  show "\<forall>d x ok. (Rename d x, ok) \<notin> set (calls_since sd (snd (update rd cfg username
             newusername uidNumber gidNumber givenName fullName sn employeeType dNumber ou
             businessCategory sd)))"
    by fastforce
  from calls [THEN conjunct1]
  show "\<forall>d m ok. (Modify d m, ok) \<notin> set (calls_since sd (snd (update rd cfg username
             newusername uidNumber gidNumber givenName fullName sn employeeType dNumber ou
             businessCategory sd)))"
    by fastforce
  from calls [THEN conjunct2]
  show "\<forall>d ok. (Delete d, ok) \<notin> set (calls_since sd (snd (delete rd cfg username sd)))"
    by fastforce
qed

theorem absent_user_not_found_witness:
  "delete on_script campus ''ghost'' (start [Some [], Some []])
   = (Inr ''ERROR: user could not be found!'',
      \<lparr>world = [],
       trace = [(Bind (LDAPSERVER campus) (USER campus) (PASSWORD campus), True),
                (Search (baseDN campus) ''uid=ghost'', True)]\<rparr>)
   \<and> update on_script campus ''ghost'' ''ghost'' ''15549'' ''15549'' ''John'' ''John The Testuser''
       ''Testuser'' ''ADM'' ''D01234567'' ''Biology'' ''staff'' (start [Some [], Some []])
     = (Inr ''ERROR: user could not be found!'',
      \<lparr>world = [],
       trace = [(Bind (LDAPSERVER campus) (USER campus) (PASSWORD campus), True),
                (Search (baseDN campus) ''uid=ghost'', True)]\<rparr>)
   \<and> (\<forall>d ok. (Delete d, ok) \<notin> set (calls_since (start bobdir)
         (snd (delete on_slapd campus ''ghost'' (start bobdir)))))"
proof -
  have conn: "ldap on_slapd = slapd" by (simp add: on_slapd_def)
  have none: "filter (\<lambda>e. uid e = ''ghost'') (entries (world (start bobdir))) = []"
    by (simp add: start_def bobdir_def)
  show ?thesis
    using absent_user_not_found [of "''ghost''" "''ghost''" "''15549''" "''15549''" "''John''"
      "''John The Testuser''" "''Testuser''" "''ADM''" "''D01234567''" "''Biology''" "''staff''"
      campus on_script "start [Some [], Some []]"
      "\<lparr>world = [Some []],
        trace = [(Bind (LDAPSERVER campus) (USER campus) (PASSWORD campus), True)]\<rparr>"
      "\<lparr>world = [],
        trace = [(Bind (LDAPSERVER campus) (USER campus) (PASSWORD campus), True),
                 (Search (baseDN campus) ''uid=ghost'', True)]\<rparr>"
      on_slapd "start bobdir"] conn none
    by (simp add: ldapConnect_def findUser_def request_def scripted_def on_script_def start_def)
qed

text \<open>
  C8 as stated fails, for the same reason: the username has no entry, and an existence
  check would return false; \<open>update\<close> with an empty given name returns the result of a
  missing value, and \<open>delete\<close> with a failed bind the one of a failed connection.
\<close>

theorem absent_user_not_found_counterexample:
  "filter (\<lambda>e. uid e = ''ghost'') (entries bobdir) = []
   \<and> fst (findUser campus slapd ''ghost'' (start bobdir)) = Inr False
   \<and> fst (update on_slapd campus ''ghost'' ''ghost'' ''15549'' ''15549'' [] ''John The Testuser''
            ''Testuser'' ''ADM'' ''D01234567'' ''Biology'' ''staff'' (start bobdir))
       = Inr ''ERROR: Missing an expected input value for givenName in input file''
   \<and> fst (delete on_slapd campus ''ghost'' (start (bobdir\<lparr>outage := [True]\<rparr>)))
       = Inr ''ERROR: unable to connect to LDAP server''"
  by code_simp

end
